theory Spec2Isabelle
  imports Complex_Main "HOL-Library.AList" "HOL-Library.Sublist"
begin

section \<open>The membrane namespace registry (namespace-registry.py)\<close>

subsection \<open>Data model\<close>

text \<open>
  The dataclass \<open>MembraneInfo\<close>. Its field \<open>id\<close> is called \<open>id_m\<close> here, since
  \<open>id\<close> is the identity function of HOL. The fields carry the types of the
  dataclass annotations: \<open>Optional[str]\<close> is \<open>string option\<close>, the timestamps
  (\<open>time.time()\<close>, seconds since the epoch) are reals, and the metadata dictionary
  \<open>Dict[str, Any]\<close> has string keys and values of a type parameter. The default of \<open>status\<close> is applied by the constructor below.
\<close>

record 'm MembraneInfo =
  id_m :: string
  parent :: "string option"
  endpoint :: string
  communication_mode :: string
  health_check_url :: "string option"
  metadata :: "(string \<times> 'm) list"
  registered_at :: real
  last_heartbeat :: real
  status :: string

text \<open>
  A JSON object as the keyword arguments of \<open>MembraneInfo(**data)\<close>: every field of
  the dataclass is present or absent, and \<open>k_unexpected\<close> lists the keys of the object
  that are no field of the dataclass. \<open>asdict\<close> produces such an object from a record.
\<close>

record 'm kwargs =
  k_id :: "string option"
  k_parent :: "string option option"
  k_endpoint :: "string option"
  k_communication_mode :: "string option"
  k_health_check_url :: "string option option"
  k_metadata :: "(string \<times> 'm) list option"
  k_registered_at :: "real option"
  k_last_heartbeat :: "real option"
  k_status :: "string option"
  k_unexpected :: "string list"

datatype error = TypeError | KeyError | IndexError | JSONDecodeError

text \<open>
  The generated constructor of the dataclass: a key that is no field raises
  \<open>TypeError\<close>, a missing field without default raises \<open>TypeError\<close>, and \<open>status\<close>
  defaults to \<open>"active"\<close>.
\<close>

definition new_MembraneInfo :: "'m kwargs \<Rightarrow> error + 'm MembraneInfo" where
  "new_MembraneInfo kw =
     (if k_unexpected kw \<noteq> [] then Inl TypeError
      else case (k_id kw, k_parent kw, k_endpoint kw, k_communication_mode kw) of
        (Some i, Some p, Some e, Some c) \<Rightarrow>
          (case (k_health_check_url kw, k_metadata kw, k_registered_at kw, k_last_heartbeat kw) of
             (Some h, Some md, Some ra, Some lh) \<Rightarrow>
               Inr \<lparr>id_m = i, parent = p, endpoint = e, communication_mode = c,
                    health_check_url = h, metadata = md, registered_at = ra,
                    last_heartbeat = lh,
                    status = (case k_status kw of None \<Rightarrow> ''active'' | Some s \<Rightarrow> s)\<rparr>
           | _ \<Rightarrow> Inl TypeError)
      | _ \<Rightarrow> Inl TypeError)"

definition asdict :: "'m MembraneInfo \<Rightarrow> 'm kwargs" where
  "asdict m =
     \<lparr>k_id = Some (id_m m), k_parent = Some (parent m), k_endpoint = Some (endpoint m),
      k_communication_mode = Some (communication_mode m),
      k_health_check_url = Some (health_check_url m), k_metadata = Some (metadata m),
      k_registered_at = Some (registered_at m), k_last_heartbeat = Some (last_heartbeat m),
      k_status = Some (status m), k_unexpected = []\<rparr>"

text \<open>
  The state file \<open>registry_state.json\<close>. \<open>Missing\<close>: the file does not exist.
  \<open>Corrupt\<close>: opening or \<open>json.load\<close> raises, or the document is no object with a
  list under \<open>"membranes"\<close> (every such fault is raised before the first entry is
  looked at). \<open>Doc\<close>: the parsed document; a key that is absent is \<open>None\<close>.
\<close>

record 'm state_doc =
  doc_membranes :: "'m kwargs list option"
  doc_peers :: "(string \<times> string) list option"
  doc_saved_at :: "real option"

datatype 'm file_content = Missing | Corrupt | Doc "'m state_doc"

text \<open>
  What happens when \<open>_save_state\<close> writes: the write succeeds, \<open>open(..., 'w')\<close>
  raises (the file keeps its content), or \<open>json.dump\<close> raises after the file was
  truncated (the file is left unparseable).
\<close>

datatype io_outcome = WriteOk | OpenFails | DumpFails

text \<open>The message \<open>{"action": ..., "data": ...}\<close> posted to a peer's \<open>/peer-sync\<close>.\<close>

record 'm sync_request =
  action :: "string option"
  data :: "'m kwargs option"

text \<open>
  The effects a registry operation has besides its result, in the order the code performs
  them: entering and leaving \<open>with self.lock\<close>, reading and writing \<open>self.membranes\<close>,
  a call of \<open>_save_state\<close>, and a request sent to a peer's endpoint.
\<close>

datatype 'm event =
    Acquire
  | Release
  | TableRead
  | TableWrite
  | SaveState
  | SendToPeer string "'m sync_request"

record 'm registry =
  registry_id :: string
  heartbeat_interval :: int
  cleanup_interval :: int
  membranes :: "(string \<times> 'm MembraneInfo) list"
  peers :: "(string \<times> string) list"
  state_file :: "'m file_content"
  trace :: "'m event list"

text \<open>
  The dictionary \<open>self.membranes\<close> is an association list in insertion order:
  \<open>d[k] = v\<close> is \<open>AList.update\<close> (a present key keeps its place, a new one goes to the
  end), \<open>del d[k]\<close> is \<open>AList.delete\<close>, and \<open>d.get(k)\<close> is \<open>map_of\<close>. A dictionary
  never holds a key twice; \<open>table_ok\<close> says so, and that every record is stored under
  its own id.
\<close>

definition table_ok :: "(string \<times> 'm MembraneInfo) list \<Rightarrow> bool" where
  "table_ok tbl = (distinct (map fst tbl) \<and> list_all (\<lambda>(k, m). id_m m = k) tbl)"

definition log :: "'m event \<Rightarrow> 'm registry \<Rightarrow> 'm registry" where
  "log e r = r\<lparr>trace := trace r @ [e]\<rparr>"

definition with_lock :: "('m registry \<Rightarrow> 'a \<times> 'm registry) \<Rightarrow> 'm registry \<Rightarrow> 'a \<times> 'm registry" where
  "with_lock body r = (case body (log Acquire r) of (x, r') \<Rightarrow> (x, log Release r'))"

subsection \<open>Persistence and peer propagation\<close>

text \<open>
  \<open>_save_state\<close>: the document holds every record of the table, the peer map and the
  time of the save; an exception is logged and swallowed. The arguments are the outcome
  of the write and the reading of the clock.
\<close>

definition save_state :: "io_outcome \<times> real \<Rightarrow> 'm registry \<Rightarrow> 'm registry" where
  "save_state sv r =
     (let r1 = log SaveState (log TableRead r);
          doc = \<lparr>doc_membranes = Some (map (asdict \<circ> snd) (membranes r1)),
                 doc_peers = Some (peers r1), doc_saved_at = Some (snd sv)\<rparr>
      in case fst sv of
           WriteOk \<Rightarrow> r1\<lparr>state_file := Doc doc\<rparr>
         | OpenFails \<Rightarrow> r1
         | DumpFails \<Rightarrow> r1\<lparr>state_file := Corrupt\<rparr>)"

text \<open>
  \<open>_propagate_to_peers\<close>: one request per configured peer, in the order of the peer
  map; a failing request is logged and dropped, so its outcome changes nothing.
\<close>

definition propagate_to_peers :: "string \<Rightarrow> 'm kwargs \<Rightarrow> 'm registry \<Rightarrow> 'm registry" where
  "propagate_to_peers act payload r =
     fold (\<lambda>(peer_id, ep). log (SendToPeer ep \<lparr>action = Some act, data = Some payload\<rparr>))
       (peers r) r"

text \<open>The document a successful \<open>_save_state\<close> at time \<open>t\<close> leaves in the state file:
  every record of the table and the whole peer map.\<close>

definition snapshot_of :: "real \<Rightarrow> 'm registry \<Rightarrow> 'm file_content" where
  "snapshot_of t r =
     Doc \<lparr>doc_membranes = Some (map (asdict \<circ> snd) (membranes r)),
          doc_peers = Some (peers r), doc_saved_at = Some t\<rparr>"

subsection \<open>The operations of \<open>NamespaceRegistry\<close>\<close>

text \<open>
  \<open>register_membrane\<close>: \<open>t1\<close> and \<open>t2\<close> are the two readings of \<open>time.time()\<close> that
  stamp \<open>registered_at\<close> and \<open>last_heartbeat\<close>.
\<close>

definition register_membrane ::
  "real \<Rightarrow> real \<Rightarrow> io_outcome \<times> real \<Rightarrow> 'm MembraneInfo \<Rightarrow> 'm registry \<Rightarrow> bool \<times> 'm registry" where
  "register_membrane t1 t2 sv membrane_info =
     with_lock (\<lambda>r.
       let info = membrane_info\<lparr>registered_at := t1, last_heartbeat := t2\<rparr>;
           r1 = log TableWrite (r\<lparr>membranes := AList.update (id_m info) info (membranes r)\<rparr>);
           r2 = save_state sv r1;
           r3 = propagate_to_peers ''register'' (asdict info) r2
       in (True, r3))"

definition id_only :: "string \<Rightarrow> 'm kwargs" where
  "id_only i =
     \<lparr>k_id = Some i, k_parent = None, k_endpoint = None, k_communication_mode = None,
      k_health_check_url = None, k_metadata = None, k_registered_at = None,
      k_last_heartbeat = None, k_status = None, k_unexpected = []\<rparr>"

definition deregister_membrane ::
  "io_outcome \<times> real \<Rightarrow> string \<Rightarrow> 'm registry \<Rightarrow> bool \<times> 'm registry" where
  "deregister_membrane sv membrane_id =
     with_lock (\<lambda>r.
       let r0 = log TableRead r in
       if membrane_id \<in> set (map fst (membranes r0)) then
         let r1 = log TableWrite (r0\<lparr>membranes := AList.delete membrane_id (membranes r0)\<rparr>);
             r2 = save_state sv r1;
             r3 = propagate_to_peers ''deregister'' (id_only membrane_id) r2
         in (True, r3)
       else (False, r0))"

definition discover_membrane :: "string \<Rightarrow> 'm registry \<Rightarrow> 'm MembraneInfo option \<times> 'm registry" where
  "discover_membrane membrane_id =
     with_lock (\<lambda>r. (map_of (membranes r) membrane_id, log TableRead r))"

definition list_membranes ::
  "string option \<Rightarrow> string option \<Rightarrow> 'm registry \<Rightarrow> 'm MembraneInfo list \<times> 'm registry" where
  "list_membranes parent_arg mode_arg =
     with_lock (\<lambda>r.
       let ms = map snd (membranes r);
           ms1 = (case parent_arg of None \<Rightarrow> ms
                  | Some p \<Rightarrow> filter (\<lambda>m. parent m = Some p) ms);
           ms2 = (case mode_arg of None \<Rightarrow> ms1
                  | Some c \<Rightarrow> filter (\<lambda>m. communication_mode m = c) ms1)
       in (ms2, log TableRead r))"

text \<open>\<open>heartbeat\<close>: \<open>t\<close> is the reading of the clock.\<close>

definition heartbeat :: "real \<Rightarrow> string \<Rightarrow> 'm registry \<Rightarrow> bool \<times> 'm registry" where
  "heartbeat t membrane_id =
     with_lock (\<lambda>r.
       let r0 = log TableRead r in
       if membrane_id \<in> set (map fst (membranes r0)) then
         (True, log TableWrite (r0\<lparr>membranes :=
            AList.map_entry membrane_id (\<lambda>m. m\<lparr>last_heartbeat := t, status := ''active''\<rparr>)
              (membranes r0)\<rparr>))
       else (False, r0))"

definition add_peer_registry :: "string \<Rightarrow> string \<Rightarrow> 'm registry \<Rightarrow> 'm registry" where
  "add_peer_registry peer_id ep r =
     snd (with_lock (\<lambda>r. ((), r\<lparr>peers := AList.update peer_id ep (peers r)\<rparr>)) r)"

text \<open>A sequence of calls of \<open>register_membrane\<close>, each with its clock readings and the
  outcome of its save.\<close>

fun register_all ::
  "(real \<times> real \<times> (io_outcome \<times> real) \<times> 'm MembraneInfo) list \<Rightarrow> 'm registry \<Rightarrow> 'm registry" where
  "register_all [] r = r"
| "register_all ((t1, t2, sv, info) # calls) r =
     register_all calls (snd (register_membrane t1 t2 sv info r))"

subsection \<open>The health sweeper\<close>

text \<open>
  One pass of the loop body of \<open>_cleanup_worker\<close>, after the sleep: \<open>current_time\<close> is
  the reading of the clock. The first loop marks, the second loop deletes, and the state is
  saved when the first loop marked a record. The comparisons are those of the code, on
  exact numbers: the rounding of the floating-point subtraction is not modelled.
\<close>

definition cleanup_tick :: "real \<Rightarrow> io_outcome \<times> real \<Rightarrow> 'm registry \<Rightarrow> 'm registry" where
  "cleanup_tick current_time sv r0 =
     snd (with_lock (\<lambda>r.
       let stale_membranes =
             map fst (filter (\<lambda>(membrane_id, info).
               current_time - last_heartbeat info > real_of_int (heartbeat_interval r * 2))
               (membranes r));
           r1 = log TableWrite (r\<lparr>membranes :=
             map (\<lambda>(membrane_id, info).
               if current_time - last_heartbeat info > real_of_int (heartbeat_interval r * 2)
               then (membrane_id, info\<lparr>status := ''unhealthy''\<rparr>)
               else (membrane_id, info)) (membranes r)\<rparr>);
           r2 = log TableWrite (r1\<lparr>membranes :=
             filter (\<lambda>(membrane_id, info).
               \<not> current_time - last_heartbeat info > real_of_int (heartbeat_interval r1 * 5))
               (membranes r1)\<rparr>)
       in ((), if stale_membranes \<noteq> [] then save_state sv r2 else r2)) r0)"

subsection \<open>Loading the state at startup\<close>

text \<open>
  The loop of \<open>_load_state\<close> over the entries of the document: each entry is
  reconstructed and stored at once; the first entry that cannot be reconstructed raises,
  which ends the loop with the entries before it already in the table.
\<close>

fun load_entries ::
  "'m kwargs list \<Rightarrow> (string \<times> 'm MembraneInfo) list \<Rightarrow> (string \<times> 'm MembraneInfo) list \<times> error option" where
  "load_entries [] tbl = (tbl, None)"
| "load_entries (membrane_data # rest) tbl =
     (case new_MembraneInfo membrane_data of
        Inl e \<Rightarrow> (tbl, Some e)
      | Inr membrane \<Rightarrow> load_entries rest (AList.update (id_m membrane) membrane tbl))"

text \<open>
  \<open>_load_state\<close>: every exception is caught and logged. The peer map is read after the
  loop, so it is only set when the loop came to its end. It runs in the constructor,
  before any thread is started, and takes no lock; the trace starts after it.
\<close>

definition load_state :: "'m registry \<Rightarrow> 'm registry" where
  "load_state r =
     (case state_file r of
        Missing \<Rightarrow> r
      | Corrupt \<Rightarrow> r
      | Doc state \<Rightarrow>
          (case load_entries (case doc_membranes state of None \<Rightarrow> [] | Some es \<Rightarrow> es)
                  (membranes r) of
             (tbl, Some e) \<Rightarrow> r\<lparr>membranes := tbl\<rparr>
           | (tbl, None) \<Rightarrow>
               r\<lparr>membranes := tbl,
                 peers := (case doc_peers state of None \<Rightarrow> [] | Some ps \<Rightarrow> ps)\<rparr>))"

text \<open>The constructor \<open>__init__\<close>, given the content of the state file.\<close>

definition init :: "string \<Rightarrow> int \<Rightarrow> int \<Rightarrow> 'm file_content \<Rightarrow> 'm registry" where
  "init rid hb_interval cl_interval content =
     load_state \<lparr>registry_id = rid, heartbeat_interval = hb_interval,
       cleanup_interval = cl_interval, membranes = [], peers = [],
       state_file = content, trace = []\<rparr>"

subsection \<open>The HTTP handlers\<close>

text \<open>
  A response is \<open>_send_json\<close> (status 200) or \<open>_send_error\<close> with a status code and
  a plain text, which is a literal or \<open>str(e)\<close> of the exception caught.
\<close>

datatype err_text = Text string | Str error

datatype 'm json_value =
    Success bool
  | Record "'m kwargs"
  | Records "'m kwargs list"
  | StatusDoc string nat nat real

datatype 'm response = SendJson "'m json_value" | SendError nat err_text

text \<open>
  The body of a POST request as \<open>_read_json\<close> and the first use of its result see it:
  \<open>Inl e\<close> when reading or parsing raises, or when the body is JSON but no object (then
  \<open>**data\<close> and \<open>data["id"]\<close> raise \<open>TypeError\<close>); \<open>Inr\<close> for a JSON object.
\<close>

definition handle_register ::
  "real \<Rightarrow> real \<Rightarrow> io_outcome \<times> real \<Rightarrow> error + 'm kwargs \<Rightarrow> 'm registry \<Rightarrow> 'm response \<times> 'm registry" where
  "handle_register t1 t2 sv body r =
     (case body of
        Inl e \<Rightarrow> (SendError 400 (Str e), r)
      | Inr kw \<Rightarrow>
          (case new_MembraneInfo kw of
             Inl e \<Rightarrow> (SendError 400 (Str e), r)
           | Inr membrane \<Rightarrow>
               (case register_membrane t1 t2 sv membrane r of
                  (success, r') \<Rightarrow> (SendJson (Success success), r'))))"

definition handle_deregister ::
  "io_outcome \<times> real \<Rightarrow> error + 'm kwargs \<Rightarrow> 'm registry \<Rightarrow> 'm response \<times> 'm registry" where
  "handle_deregister sv body r =
     (case body of
        Inl e \<Rightarrow> (SendError 400 (Str e), r)
      | Inr kw \<Rightarrow>
          (case k_id kw of
             None \<Rightarrow> (SendError 400 (Str KeyError), r)
           | Some i \<Rightarrow>
               (case deregister_membrane sv i r of
                  (success, r') \<Rightarrow> (SendJson (Success success), r'))))"

definition handle_heartbeat ::
  "real \<Rightarrow> error + 'm kwargs \<Rightarrow> 'm registry \<Rightarrow> 'm response \<times> 'm registry" where
  "handle_heartbeat t body r =
     (case body of
        Inl e \<Rightarrow> (SendError 400 (Str e), r)
      | Inr kw \<Rightarrow>
          (case k_id kw of
             None \<Rightarrow> (SendError 400 (Str KeyError), r)
           | Some i \<Rightarrow>
               (case heartbeat t i r of
                  (success, r') \<Rightarrow> (SendJson (Success success), r'))))"

definition handle_discover :: "string \<Rightarrow> 'm registry \<Rightarrow> 'm response \<times> 'm registry" where
  "handle_discover membrane_id r =
     (case discover_membrane membrane_id r of
        (Some membrane, r') \<Rightarrow> (SendJson (Record (asdict membrane)), r')
      | (None, r') \<Rightarrow> (SendError 404 (Text ''Membrane not found''), r'))"

text \<open>
  \<open>_handle_peer_sync\<close> works on \<open>registry.membranes\<close> directly: it calls none of the
  operations above.
\<close>

definition handle_peer_sync ::
  "error + 'm sync_request \<Rightarrow> 'm registry \<Rightarrow> 'm response \<times> 'm registry" where
  "handle_peer_sync body r =
     (case body of
        Inl e \<Rightarrow> (SendError 400 (Str e), r)
      | Inr req \<Rightarrow>
          (case action req of
             None \<Rightarrow> (SendError 400 (Str KeyError), r)
           | Some act \<Rightarrow>
               (case data req of
                  None \<Rightarrow> (SendError 400 (Str KeyError), r)
                | Some payload \<Rightarrow>
                    if act = ''register'' then
                      (case new_MembraneInfo payload of
                         Inl e \<Rightarrow> (SendError 400 (Str e), r)
                       | Inr membrane \<Rightarrow>
                           (SendJson (Success True),
                            log TableWrite (r\<lparr>membranes :=
                              AList.update (id_m membrane) membrane (membranes r)\<rparr>)))
                    else if act = ''deregister'' then
                      (case k_id payload of
                         None \<Rightarrow> (SendError 400 (Str KeyError), r)
                       | Some membrane_id \<Rightarrow>
                           (SendJson (Success True),
                            log TableWrite (r\<lparr>membranes :=
                              AList.delete membrane_id (membranes r)\<rparr>)))
                    else (SendJson (Success True), r))))"

text \<open>
  Strings: \<open>s.split(c)\<close>, \<open>s.split(c, 1)\<close>, and \<open>urllib.parse.parse_qs\<close> with its
  defaults (pairs separated by \<open>&\<close>, a pair without \<open>=\<close> or with an empty value is
  dropped, \<open>+\<close> is a space, percent escapes are decoded; the strings of the model are
  byte strings, so an escape yields one byte).
\<close>

fun split_on :: "char \<Rightarrow> string \<Rightarrow> string list" where
  "split_on c [] = [[]]"
| "split_on c (x # xs) =
     (if x = c then [] # split_on c xs
      else case split_on c xs of w # ws \<Rightarrow> (x # w) # ws | [] \<Rightarrow> [[x]])"

definition split_once :: "char \<Rightarrow> string \<Rightarrow> string list" where
  "split_once c s =
     (if c \<in> set s then [takeWhile (\<lambda>x. x \<noteq> c) s, tl (dropWhile (\<lambda>x. x \<noteq> c) s)] else [s])"

definition hexval :: "char \<Rightarrow> nat option" where
  "hexval c =
     (let n = of_char c :: nat in
      if 48 \<le> n \<and> n \<le> 57 then Some (n - 48)
      else if 65 \<le> n \<and> n \<le> 70 then Some (n - 55)
      else if 97 \<le> n \<and> n \<le> 102 then Some (n - 87)
      else None)"

fun unquote :: "string \<Rightarrow> string" where
  "unquote (p # a # b # rest) =
     (if p = CHR ''%'' then
        (case (hexval a, hexval b) of
           (Some x, Some y) \<Rightarrow> char_of (16 * x + y) # unquote rest
         | _ \<Rightarrow> p # unquote (a # b # rest))
      else p # unquote (a # b # rest))"
| "unquote s = s"

definition unquote_plus :: "string \<Rightarrow> string" where
  "unquote_plus s = unquote (map (\<lambda>c. if c = CHR ''+'' then CHR '' '' else c) s)"

definition parse_qsl :: "string \<Rightarrow> (string \<times> string) list" where
  "parse_qsl qs =
     concat (map (\<lambda>name_value.
       if name_value = [] then []
       else case split_once CHR ''='' name_value of
              [n, v] \<Rightarrow> if v \<noteq> [] then [(unquote_plus n, unquote_plus v)] else []
            | _ \<Rightarrow> []) (split_on CHR ''&'' qs))"

definition parse_qs :: "string \<Rightarrow> (string \<times> string list) list" where
  "parse_qs qs =
     fold (\<lambda>(name, v) parsed.
       case map_of parsed name of
         Some vs \<Rightarrow> AList.update name (vs @ [v]) parsed
       | None \<Rightarrow> AList.update name [v] parsed) (parse_qsl qs) []"

text \<open>\<open>query.get(key, [None])[0]\<close>; indexing an empty list raises \<open>IndexError\<close>.\<close>

definition query_first :: "(string \<times> string list) list \<Rightarrow> string \<Rightarrow> error + string option" where
  "query_first query key =
     (case map_of query key of
        None \<Rightarrow> Inr None
      | Some [] \<Rightarrow> Inl IndexError
      | Some (v # _) \<Rightarrow> Inr (Some v))"

definition handle_list :: "string \<Rightarrow> 'm registry \<Rightarrow> 'm response \<times> 'm registry" where
  "handle_list path r =
     (let query = parse_qs (if CHR ''?'' \<in> set path
                            then split_once CHR ''?'' path ! 1 else [])
      in case query_first query ''parent'' of
           Inl e \<Rightarrow> (SendError 500 (Str e), r)
         | Inr parent_arg \<Rightarrow>
             (case query_first query ''communication_mode'' of
                Inl e \<Rightarrow> (SendError 500 (Str e), r)
              | Inr comm_mode \<Rightarrow>
                  (case list_membranes parent_arg comm_mode r of
                     (ms, r') \<Rightarrow> (SendJson (Records (map asdict ms)), r'))))"

text \<open>
  \<open>_handle_status\<close>: \<open>t1\<close> is the clock read for the uptime, \<open>t2\<close> the clock read for
  the default object of \<open>membranes.get\<close>. The table is read outside the lock.
\<close>

definition handle_status :: "real \<Rightarrow> real \<Rightarrow> 'm registry \<Rightarrow> 'm response \<times> 'm registry" where
  "handle_status t1 t2 r =
     (SendJson (StatusDoc (registry_id r) (length (membranes r)) (length (peers r))
        (t1 - (case map_of (membranes r) (registry_id r) of
                 Some m \<Rightarrow> registered_at m
               | None \<Rightarrow> t2))),
      log TableRead (log TableRead r))"

text \<open>
  \<open>do_GET\<close>: \<open>path\<close> is the request target as \<open>BaseHTTPRequestHandler\<close> gives it,
  the query string included.
\<close>

definition do_GET :: "real \<Rightarrow> real \<Rightarrow> string \<Rightarrow> 'm registry \<Rightarrow> 'm response \<times> 'm registry" where
  "do_GET t1 t2 path r =
     (if path = ''/status'' then handle_status t1 t2 r
      else if prefix ''/discover/'' path then
        handle_discover (last (split_on CHR ''/'' path)) r
      else if path = ''/list'' then handle_list path r
      else (SendError 404 (Text ''Not Found''), r))"

subsection \<open>The lock discipline\<close>

text \<open>
  A trace keeps the lock discipline when every read and write of the table happens while
  the lock is held; \<open>d\<close> is the number of times the (reentrant) lock is held.
\<close>

fun guarded :: "nat \<Rightarrow> 'm event list \<Rightarrow> bool" where
  "guarded d [] = True"
| "guarded d (Acquire # es) = guarded (Suc d) es"
| "guarded d (Release # es) = guarded (d - 1) es"
| "guarded d (TableRead # es) = (0 < d \<and> guarded d es)"
| "guarded d (TableWrite # es) = (0 < d \<and> guarded d es)"
| "guarded d (SaveState # es) = guarded d es"
| "guarded d (SendToPeer ep req # es) = guarded d es"

section \<open>The membrane client (namespace-client.py)\<close>

subsection \<open>Data model\<close>

text \<open>
  The dataclass \<open>MembraneEndpoint\<close>; its fields carry the suffix \<open>_e\<close> where the
  registry's record has a field of the same name.
\<close>

record 'm MembraneEndpoint =
  id_e :: string
  endpoint_e :: string
  communication_mode_e :: string
  metadata_e :: "(string \<times> 'm) list"
  last_seen :: real

text \<open>
  What the client does to the world, in order: a POST to the registry with its JSON body,
  a GET with its path and query parameters, a POST of a message to a membrane's endpoint,
  a message file written, \<open>time.sleep\<close>, and starting and joining the heartbeat thread.
\<close>

datatype 'm client_event =
    HttpPost string "'m kwargs"
  | HttpGet string "(string \<times> string) list"
  | PostMessage string
  | WriteFile string
  | Sleep int
  | ThreadStart
  | ThreadJoin

datatype thread = Thread

text \<open>
  \<open>NamespaceClient\<close>. The field \<open>heartbeat_interval\<close> is \<open>heartbeat_interval_c\<close>
  here (the registry has a field of that name).
\<close>

record 'm client =
  membrane_id :: string
  registry_url :: string
  auto_heartbeat :: bool
  heartbeat_interval_c :: int
  heartbeat_thread :: "thread option"
  heartbeat_running :: bool
  membrane_cache :: "(string \<times> 'm MembraneEndpoint) list"
  cache_ttl :: real
  c_trace :: "'m client_event list"

definition clog :: "'m client_event \<Rightarrow> 'm client \<Rightarrow> 'm client" where
  "clog e c = c\<lparr>c_trace := c_trace c @ [e]\<rparr>"

text \<open>
  The outcome of \<open>_post\<close>: it raises (no connection, timeout, an HTTP error status, a
  body that is no JSON object), or it returns the reply object, of which the client reads
  the entry \<open>"success"\<close> (\<open>None\<close> when the reply has no such entry). The outcome of
  \<open>_get\<close> for \<open>/discover\<close> is an object, and for \<open>/list\<close> a list of objects, each
  paired with the reading of the clock that stamps its \<open>last_seen\<close>.
\<close>

datatype post_result = PostRaises | PostReply "bool option"

datatype 'm get_result = GetRaises | GetReply "'m kwargs"

datatype 'm list_result = ListRaises | ListReply "('m kwargs \<times> real) list"

text \<open>The constructor: \<open>registry_url.rstrip('/')\<close>, no thread, an empty cache with a
  time to live of 60 seconds.\<close>

definition new_client :: "string \<Rightarrow> string \<Rightarrow> bool \<Rightarrow> int \<Rightarrow> 'm client" where
  "new_client mid url auto interval =
     \<lparr>membrane_id = mid,
      registry_url = rev (dropWhile (\<lambda>ch. ch = CHR ''/'') (rev url)),
      auto_heartbeat = auto, heartbeat_interval_c = interval,
      heartbeat_thread = None, heartbeat_running = False,
      membrane_cache = [], cache_ttl = 60, c_trace = []\<rparr>"

subsection \<open>Default endpoints\<close>

text \<open>\<open>str\<close> of an integer, as an f-string formats it.\<close>

fun str_nat :: "nat \<Rightarrow> string" where
  "str_nat n =
     (if n < 10 then [''0123456789'' ! n]
      else str_nat (n div 10) @ [''0123456789'' ! (n mod 10)])"

definition str_int :: "int \<Rightarrow> string" where
  "str_int i = (if i < 0 then CHR ''-'' # str_nat (nat (- i)) else str_nat (nat i))"

text \<open>
  \<open>_auto_detect_endpoint\<close>. The built-in \<open>hash\<close> of a string belongs to the Python
  runtime, which keys it with a seed drawn at the start of the process (unless
  \<open>PYTHONHASHSEED\<close> fixes it); \<open>py_hash\<close> is the hash function of the running
  process. Python's \<open>%\<close> with a positive modulus is \<open>mod\<close> on \<open>int\<close>.
\<close>

definition auto_detect_endpoint :: "(string \<Rightarrow> int) \<Rightarrow> 'm client \<Rightarrow> string \<Rightarrow> string" where
  "auto_detect_endpoint py_hash c mode =
     (if mode = ''shared-volume'' then
        ''/opt/membrane/communication/inbox/'' @ membrane_id c
      else if mode = ''network'' then
        (let port = 9000 + (py_hash (membrane_id c) mod 1000)
         in ''http://localhost:'' @ str_int port)
      else if mode = ''ipc'' then
        ''/tmp/membrane_'' @ membrane_id c @ ''.sock''
      else ''/opt/membrane/communication/inbox/'' @ membrane_id c)"

subsection \<open>The heartbeat thread\<close>

definition start_heartbeat :: "'m client \<Rightarrow> 'm client" where
  "start_heartbeat c =
     (if \<not> heartbeat_running c then
        clog ThreadStart (c\<lparr>heartbeat_running := True, heartbeat_thread := Some Thread\<rparr>)
      else c)"

definition stop_heartbeat :: "'m client \<Rightarrow> 'm client" where
  "stop_heartbeat c =
     (let c1 = c\<lparr>heartbeat_running := False\<rparr>
      in case heartbeat_thread c1 of Some th \<Rightarrow> clog ThreadJoin c1 | None \<Rightarrow> c1)"

text \<open>\<open>response.get("success", False)\<close>.\<close>

definition get_success :: "bool option \<Rightarrow> bool" where
  "get_success s = (case s of None \<Rightarrow> False | Some b \<Rightarrow> b)"

text \<open>\<open>heartbeat\<close> of the client: every exception is caught here and becomes \<open>False\<close>.\<close>

definition client_heartbeat :: "post_result \<Rightarrow> 'm client \<Rightarrow> bool \<times> 'm client" where
  "client_heartbeat pr c =
     (let c1 = clog (HttpPost (registry_url c @ ''/heartbeat'') (id_only (membrane_id c))) c
      in case pr of
           PostRaises \<Rightarrow> (False, c1)
         | PostReply s \<Rightarrow> (get_success s, c1))"

text \<open>
  One pass of the loop body of \<open>_heartbeat_worker\<close>. The result of \<open>heartbeat()\<close> is
  dropped. \<open>time.sleep\<close> raises \<open>ValueError\<close> for a negative length, which is the
  exception the \<open>except\<close> branch of the loop can see.
\<close>

definition heartbeat_iteration :: "post_result \<Rightarrow> 'm client \<Rightarrow> 'm client" where
  "heartbeat_iteration pr c =
     (case client_heartbeat pr c of
        (ok, c1) \<Rightarrow>
          if heartbeat_interval_c c1 < 0 then clog (Sleep 5) c1
          else clog (Sleep (heartbeat_interval_c c1)) c1)"

text \<open>
  \<open>_heartbeat_worker\<close>, run for the attempts whose outcomes are given: the loop goes on
  while \<open>heartbeat_running\<close> is set.
\<close>

fun heartbeat_worker :: "post_result list \<Rightarrow> 'm client \<Rightarrow> 'm client" where
  "heartbeat_worker [] c = c"
| "heartbeat_worker (pr # prs) c =
     (if heartbeat_running c then heartbeat_worker prs (heartbeat_iteration pr c) else c)"

subsection \<open>The operations of \<open>NamespaceClient\<close>\<close>

text \<open>
  \<open>register\<close>: \<open>t1\<close> and \<open>t2\<close> are the clock readings sent as \<open>registered_at\<close>
  and \<open>last_heartbeat\<close>.
\<close>

definition client_register ::
  "(string \<Rightarrow> int) \<Rightarrow> string option \<Rightarrow> string option \<Rightarrow> string \<Rightarrow> (string \<times> 'm) list option \<Rightarrow>
   real \<Rightarrow> real \<Rightarrow> post_result \<Rightarrow> 'm client \<Rightarrow> bool \<times> 'm client" where
  "client_register py_hash parent_arg endpoint_arg mode metadata_arg t1 t2 pr c =
     (let ep = (case endpoint_arg of
                  None \<Rightarrow> auto_detect_endpoint py_hash c mode
                | Some e \<Rightarrow> e);
          registration_data =
            \<lparr>k_id = Some (membrane_id c), k_parent = Some parent_arg, k_endpoint = Some ep,
             k_communication_mode = Some mode, k_health_check_url = Some None,
             k_metadata = Some (case metadata_arg of None \<Rightarrow> [] | Some md \<Rightarrow> md),
             k_registered_at = Some t1, k_last_heartbeat = Some t2, k_status = None,
             k_unexpected = []\<rparr>;
          c1 = clog (HttpPost (registry_url c @ ''/register'') registration_data) c
      in case pr of
           PostRaises \<Rightarrow> (False, c1)
         | PostReply s \<Rightarrow>
             if get_success s then
               (if auto_heartbeat c1 then (True, start_heartbeat c1) else (True, c1))
             else (False, c1))"

definition client_deregister :: "post_result \<Rightarrow> 'm client \<Rightarrow> bool \<times> 'm client" where
  "client_deregister pr c =
     (let c1 = stop_heartbeat c;
          c2 = clog (HttpPost (registry_url c1 @ ''/deregister'') (id_only (membrane_id c1))) c1
      in case pr of
           PostRaises \<Rightarrow> (False, c2)
         | PostReply s \<Rightarrow> (get_success s, c2))"

text \<open>
  Building a \<open>MembraneEndpoint\<close> from a reply object: a missing \<open>id\<close>,
  \<open>endpoint\<close> or \<open>communication_mode\<close> raises \<open>KeyError\<close>; \<open>metadata\<close>
  defaults to the empty dictionary.
\<close>

definition new_MembraneEndpoint :: "'m kwargs \<Rightarrow> real \<Rightarrow> error + 'm MembraneEndpoint" where
  "new_MembraneEndpoint kw now =
     (case (k_id kw, k_endpoint kw, k_communication_mode kw) of
        (Some i, Some e, Some m) \<Rightarrow>
          Inr \<lparr>id_e = i, endpoint_e = e, communication_mode_e = m,
               metadata_e = (case k_metadata kw of None \<Rightarrow> [] | Some md \<Rightarrow> md),
               last_seen = now\<rparr>
      | _ \<Rightarrow> Inl KeyError)"

text \<open>The empty object \<open>{}\<close>, which \<open>if response:\<close> takes for false.\<close>

definition empty_object :: "'m kwargs \<Rightarrow> bool" where
  "empty_object kw =
     (k_id kw = None \<and> k_parent kw = None \<and> k_endpoint kw = None \<and>
      k_communication_mode kw = None \<and> k_health_check_url kw = None \<and>
      k_metadata kw = None \<and> k_registered_at kw = None \<and> k_last_heartbeat kw = None \<and>
      k_status kw = None \<and> k_unexpected kw = [])"

text \<open>
  \<open>discover\<close>: \<open>now_cache\<close> is the clock read for the age of a cached entry,
  \<open>now_seen\<close> the one that stamps a fresh entry.
\<close>

definition client_discover ::
  "string \<Rightarrow> bool \<Rightarrow> real \<Rightarrow> real \<Rightarrow> 'm get_result \<Rightarrow> 'm client \<Rightarrow>
   'm MembraneEndpoint option \<times> 'm client" where
  "client_discover target use_cache now_cache now_seen gr c =
     (let query =
            (let c1 = clog (HttpGet (registry_url c @ ''/discover/'' @ target) []) c
             in case gr of
                  GetRaises \<Rightarrow> (None, c1)
                | GetReply kw \<Rightarrow>
                    if empty_object kw then (None, c1)
                    else (case new_MembraneEndpoint kw now_seen of
                            Inl e \<Rightarrow> (None, c1)
                          | Inr ep \<Rightarrow>
                              (Some ep, c1\<lparr>membrane_cache :=
                                 AList.update target ep (membrane_cache c1)\<rparr>)))
      in case (if use_cache then map_of (membrane_cache c) target else None) of
           Some cached \<Rightarrow>
             if now_cache - last_seen cached < cache_ttl c then (Some cached, c) else query
         | None \<Rightarrow> query)"

text \<open>
  The loop of \<open>list_membranes\<close> over the reply: an entry that cannot be read raises,
  and the whole call returns the empty list, with the cache entries written so far kept.
\<close>

fun list_loop ::
  "('m kwargs \<times> real) list \<Rightarrow> 'm MembraneEndpoint list \<Rightarrow> 'm client \<Rightarrow>
   'm MembraneEndpoint list \<times> 'm client" where
  "list_loop [] endpoints c = (endpoints, c)"
| "list_loop ((membrane_data, now) # rest) endpoints c =
     (case new_MembraneEndpoint membrane_data now of
        Inl e \<Rightarrow> ([], c)
      | Inr ep \<Rightarrow>
          list_loop rest (endpoints @ [ep])
            (c\<lparr>membrane_cache := AList.update (id_e ep) ep (membrane_cache c)\<rparr>))"

definition client_list_membranes ::
  "string option \<Rightarrow> string option \<Rightarrow> 'm list_result \<Rightarrow> 'm client \<Rightarrow>
   'm MembraneEndpoint list \<times> 'm client" where
  "client_list_membranes parent_arg mode_arg lr c =
     (let params =
            (case parent_arg of None \<Rightarrow> [] | Some p \<Rightarrow> [(''parent'', p)]) @
            (case mode_arg of None \<Rightarrow> [] | Some m \<Rightarrow> [(''communication_mode'', m)]);
          c1 = clog (HttpGet (registry_url c @ ''/list'') params) c
      in case lr of
           ListRaises \<Rightarrow> ([], c1)
         | ListReply entries \<Rightarrow> list_loop entries [] c1)"

text \<open>\<open>int(x)\<close> of a float: truncation towards zero.\<close>

definition py_int :: "real \<Rightarrow> int" where
  "py_int x = (if x < 0 then \<lceil>x\<rceil> else \<lfloor>x\<rfloor>)"

text \<open>
  \<open>send_message\<close>: the target is resolved by \<open>discover\<close> (with the cache), then the
  message goes by the target's mode. \<open>delivered\<close> says whether the transport worked
  (the file was written, or the POST was answered with status 200); \<open>now_file\<close> is the
  clock read for the name of the message file.
\<close>

definition client_send_message ::
  "string \<Rightarrow> real \<Rightarrow> real \<Rightarrow> 'm get_result \<Rightarrow> bool \<Rightarrow> real \<Rightarrow> 'm client \<Rightarrow> bool \<times> 'm client" where
  "client_send_message target now_cache now_seen gr delivered now_file c =
     (case client_discover target True now_cache now_seen gr c of
        (None, c1) \<Rightarrow> (False, c1)
      | (Some tgt, c1) \<Rightarrow>
          if communication_mode_e tgt = ''shared-volume'' then
            (if delivered then
               (True, clog (WriteFile (endpoint_e tgt @ ''/msg_'' @ membrane_id c1 @ ''_'' @
                  str_int (py_int (now_file * 1000)) @ ''.json'')) c1)
             else (False, c1))
          else if communication_mode_e tgt = ''network'' then
            (delivered, clog (PostMessage (endpoint_e tgt @ ''/message'')) c1)
          else if communication_mode_e tgt = ''ipc'' then (False, c1)
          else (False, c1))"

text \<open>A call of one public method of the client, with the outcomes it meets.\<close>

datatype 'm client_op =
    Register "string option" "string option" string "(string \<times> 'm) list option" real real post_result
  | Deregister post_result
  | Heartbeat post_result
  | Discover string bool real real "'m get_result"
  | ListMembranes "string option" "string option" "'m list_result"
  | SendMessage string real real "'m get_result" bool real

fun client_step :: "(string \<Rightarrow> int) \<Rightarrow> 'm client_op \<Rightarrow> 'm client \<Rightarrow> 'm client" where
  "client_step py_hash (Register p e m md t1 t2 pr) c =
     snd (client_register py_hash p e m md t1 t2 pr c)"
| "client_step py_hash (Deregister pr) c = snd (client_deregister pr c)"
| "client_step py_hash (Heartbeat pr) c = snd (client_heartbeat pr c)"
| "client_step py_hash (Discover target use_cache t1 t2 gr) c =
     snd (client_discover target use_cache t1 t2 gr c)"
| "client_step py_hash (ListMembranes p m lr) c = snd (client_list_membranes p m lr c)"
| "client_step py_hash (SendMessage target t1 t2 gr delivered t3) c =
     snd (client_send_message target t1 t2 gr delivered t3 c)"

text \<open>A call of \<open>register\<close> that returns \<open>True\<close>.\<close>

fun successful_register :: "'m client_op \<Rightarrow> bool" where
  "successful_register (Register p e m md t1 t2 (PostReply (Some True))) = True"
| "successful_register op = False"

section \<open>Example values\<close>

text \<open>A registry started with no state file, with the default intervals, and two
  registrations of the membrane \<open>m1\<close>.\<close>

definition empty_registry :: "unit registry" where
  "empty_registry = init ''default'' 30 60 Missing"

definition m1_network :: "unit MembraneInfo" where
  "m1_network =
     \<lparr>id_m = ''m1'', parent = Some ''root'', endpoint = ''http://localhost:9100'',
      communication_mode = ''network'', health_check_url = None, metadata = [],
      registered_at = 7, last_heartbeat = 7, status = ''active''\<rparr>"

definition m1_volume :: "unit MembraneInfo" where
  "m1_volume =
     \<lparr>id_m = ''m1'', parent = None, endpoint = ''/opt/membrane/communication/inbox/m1'',
      communication_mode = ''shared-volume'', health_check_url = None, metadata = [],
      registered_at = 8, last_heartbeat = 8, status = ''active''\<rparr>"

text \<open>An entry of a state file that has no \<open>endpoint\<close>.\<close>

definition m2_broken :: "unit kwargs" where
  "m2_broken = (asdict (m1_network\<lparr>id_m := ''m2''\<rparr>))\<lparr>k_endpoint := None\<rparr>"

text \<open>The client of the membrane \<open>m1\<close> with the defaults of the constructor.\<close>

definition client_m1 :: "unit client" where
  "client_m1 = new_client ''m1'' ''http://localhost:8765'' True 25"

text \<open>
  Two hash functions that differ, to stand for the string hashes of two processes with
  different seeds. (The hash of the runtime is not part of the repository; the properties
  below hold for every hash function.)
\<close>

definition keyed_hash :: "int \<Rightarrow> string \<Rightarrow> int" where
  "keyed_hash key s = key + int (sum_list (map of_char s))"

section \<open>Properties\<close>

declare str_nat.simps [simp del]

lemma trace_log [simp]: "trace (log e r) = trace r @ [e]"
  by (simp add: log_def)

lemma membranes_log [simp]: "membranes (log e r) = membranes r"
  by (simp add: log_def)

lemma state_file_log [simp]: "state_file (log e r) = state_file r"
  by (simp add: log_def)

lemma peers_log [simp]: "peers (log e r) = peers r"
  by (simp add: log_def)

lemma heartbeat_interval_log [simp]: "heartbeat_interval (log e r) = heartbeat_interval r"
  by (simp add: log_def)

lemma membranes_save_state [simp]: "membranes (save_state sv r) = membranes r"
  by (cases "fst sv") (simp_all add: save_state_def Let_def)

lemma peers_save_state [simp]: "peers (save_state sv r) = peers r"
  by (cases "fst sv") (simp_all add: save_state_def Let_def)

lemma propagate_fold:
  "fold (\<lambda>(peer_id, ep). log (f ep)) ps r = r\<lparr>trace := trace r @ map (\<lambda>(peer_id, ep). f ep) ps\<rparr>"
  by (induction ps arbitrary: r) (auto simp: log_def)

lemma propagate_to_peers_eq:
  "propagate_to_peers act payload r =
     r\<lparr>trace := trace r @
        map (\<lambda>(peer_id, ep). SendToPeer ep \<lparr>action = Some act, data = Some payload\<rparr>) (peers r)\<rparr>"
  unfolding propagate_to_peers_def by (rule propagate_fold)

lemma membranes_propagate [simp]: "membranes (propagate_to_peers act payload r) = membranes r"
  by (simp add: propagate_to_peers_eq)

lemma state_file_propagate [simp]: "state_file (propagate_to_peers act payload r) = state_file r"
  by (simp add: propagate_to_peers_eq)

lemma membranes_register:
  "membranes (snd (register_membrane t1 t2 sv info r)) =
     AList.update (id_m info) (info\<lparr>registered_at := t1, last_heartbeat := t2\<rparr>) (membranes r)"
  by (simp add: register_membrane_def with_lock_def Let_def)

subsection \<open>The table stays a dictionary\<close>

lemma list_all_update:
  "list_all P tbl \<Longrightarrow> P (k, v) \<Longrightarrow> list_all P (AList.update k v tbl)"
  by (induction tbl) auto

lemma table_ok_update:
  "table_ok tbl \<Longrightarrow> table_ok (AList.update (id_m m) m tbl)"
  unfolding table_ok_def by (simp add: distinct_update list_all_update)

lemma table_ok_delete: "table_ok tbl \<Longrightarrow> table_ok (AList.delete k tbl)"
proof -
  assume ok: "table_ok tbl"
  have "distinct (map fst (AList.delete k tbl))"
    using ok by (simp add: table_ok_def distinct_delete)
  moreover have "list_all (\<lambda>(k, m). id_m m = k) (AList.delete k tbl)"
    using ok by (auto simp: table_ok_def list_all_iff AList.delete_eq)
  ultimately show ?thesis by (simp add: table_ok_def)
qed

lemma table_ok_register:
  "table_ok (membranes r) \<Longrightarrow> table_ok (membranes (snd (register_membrane t1 t2 sv info r)))"
  using table_ok_update [of "membranes r" "info\<lparr>registered_at := t1, last_heartbeat := t2\<rparr>"]
  by (simp add: membranes_register)

lemma table_ok_register_all:
  "table_ok (membranes r) \<Longrightarrow> table_ok (membranes (register_all calls r))"
  by (induction calls arbitrary: r) (auto simp: table_ok_register)

lemma key_count_one:
  "distinct (map fst tbl) \<Longrightarrow> map_of tbl k = Some v \<Longrightarrow> length (filter (\<lambda>(k', m). k' = k) tbl) = 1"
  by (induction tbl) (auto split: if_splits simp: map_of_eq_None_iff[symmetric] filter_empty_conv dest!: map_of_SomeD intro: rev_image_eqI)

lemma id_count_eq:
  "list_all (\<lambda>(k, m). id_m m = k) tbl \<Longrightarrow>
   filter (\<lambda>(k, m). id_m m = i) tbl = filter (\<lambda>(k, m). k = i) tbl"
  by (induction tbl) auto

lemma map_of_register_all:
  "calls \<noteq> [] \<Longrightarrow> last calls = (t1, t2, sv, info) \<Longrightarrow>
   map_of (membranes (register_all calls r)) (id_m info) =
     Some (info\<lparr>registered_at := t1, last_heartbeat := t2\<rparr>)"
proof (induction calls arbitrary: r)
  case Nil
  then show ?case by simp
next
  case (Cons c calls)
  obtain a b s m where c: "c = (a, b, s, m)" by (cases c) auto
  show ?case
  proof (cases "calls = []")
    case True
    with Cons.prems c show ?thesis
      by (simp add: membranes_register update_conv')
  next
    case False
    with Cons c show ?thesis by simp
  qed
qed

subsection \<open>Registration\<close>

text \<open>
  Claim C5. \<open>register_membrane\<close> returns \<open>True\<close> for every record and every state of
  the registry. After any non-empty sequence of registrations that all carry the id \<open>i\<close>,
  the table holds exactly one record for \<open>i\<close>: the record of the last call, with
  \<open>registered_at\<close> and \<open>last_heartbeat\<close> set to the clock readings of that call,
  whatever timestamps the caller supplied.
\<close>

theorem register_upsert_latest:
  "fst (register_membrane t1 t2 sv info r) = True \<and>
   (table_ok (membranes r) \<and> calls \<noteq> [] \<and> list_all (\<lambda>(a, b, s, m). id_m m = i) calls \<longrightarrow>
     (case last calls of (a, b, s, m) \<Rightarrow>
        map_of (membranes (register_all calls r)) i =
          Some (m\<lparr>registered_at := a, last_heartbeat := b\<rparr>) \<and>
        length (filter (\<lambda>(k, m'). k = i) (membranes (register_all calls r))) = 1 \<and>
        length (filter (\<lambda>(k, m'). id_m m' = i) (membranes (register_all calls r))) = 1))"
proof (intro conjI impI)
  show "fst (register_membrane t1 t2 sv info r) = True"
    by (simp add: register_membrane_def with_lock_def Let_def)
next
  assume h: "table_ok (membranes r) \<and> calls \<noteq> [] \<and> list_all (\<lambda>(a, b, s, m). id_m m = i) calls"
  obtain a b s m where l: "last calls = (a, b, s, m)" by (cases "last calls") auto
  from h have "last calls \<in> set calls" by simp
  with h l have i: "id_m m = i" by (auto simp: list_all_iff)
  let ?tbl = "membranes (register_all calls r)"
  have ok: "table_ok ?tbl" using h by (simp add: table_ok_register_all)
  have look: "map_of ?tbl i = Some (m\<lparr>registered_at := a, last_heartbeat := b\<rparr>)"
    using map_of_register_all [of calls a b s m r] h l i by simp
  have one: "length (filter (\<lambda>(k, m'). k = i) ?tbl) = 1"
  proof (rule key_count_one)
    show "distinct (map fst ?tbl)" using ok by (simp add: table_ok_def)
    show "map_of ?tbl i = Some (m\<lparr>registered_at := a, last_heartbeat := b\<rparr>)" by (rule look)
  qed
  have "filter (\<lambda>(k, m'). id_m m' = i) ?tbl = filter (\<lambda>(k, m'). k = i) ?tbl"
    using ok by (simp add: table_ok_def id_count_eq)
  with one look l
  show "case last calls of (a, b, s, m) \<Rightarrow>
        map_of ?tbl i = Some (m\<lparr>registered_at := a, last_heartbeat := b\<rparr>) \<and>
        length (filter (\<lambda>(k, m'). k = i) ?tbl) = 1 \<and>
        length (filter (\<lambda>(k, m'). id_m m' = i) ?tbl) = 1"
    by simp
qed

lemma membranes_empty_registry: "membranes empty_registry = []"
  by (simp add: empty_registry_def init_def load_state_def)

text \<open>Two registrations of \<open>m1\<close> at an empty registry: the second one is what the
  table holds, stamped with its own clock readings.\<close>

theorem register_upsert_latest_witness:
  "table_ok (membranes empty_registry) \<and>
   [(1, 2, (WriteOk, 3), m1_network), (4, 5, (OpenFails, 6), m1_volume)] \<noteq> [] \<and>
   list_all (\<lambda>(a, b, s, m). id_m m = ''m1'')
     [(1, 2, (WriteOk, 3), m1_network), (4, 5, (OpenFails, 6), m1_volume)] \<and>
   map_of (membranes (register_all
       [(1, 2, (WriteOk, 3), m1_network), (4, 5, (OpenFails, 6), m1_volume)] empty_registry)) ''m1'' =
     Some (m1_volume\<lparr>registered_at := 4, last_heartbeat := 5\<rparr>) \<and>
   length (filter (\<lambda>(k, m'). k = ''m1'') (membranes (register_all
       [(1, 2, (WriteOk, 3), m1_network), (4, 5, (OpenFails, 6), m1_volume)] empty_registry))) = 1"
proof -
  have h: "table_ok (membranes empty_registry) \<and>
    [(1, 2, (WriteOk, 3), m1_network), (4, 5, (OpenFails, 6), m1_volume)] \<noteq> [] \<and>
    list_all (\<lambda>(a, b, s, m). id_m m = ''m1'')
      [(1::real, 2::real, (WriteOk, 3::real), m1_network), (4, 5, (OpenFails, 6), m1_volume)]"
    by (simp add: membranes_empty_registry table_ok_def m1_network_def m1_volume_def)
  from h register_upsert_latest [of 0 0 "(WriteOk, 0)" m1_network empty_registry
      "[(1, 2, (WriteOk, 3), m1_network), (4, 5, (OpenFails, 6), m1_volume)]" "''m1''"]
  show ?thesis by simp
qed

subsection \<open>Ids are not validated\<close>

lemma trace_empty_registry: "trace empty_registry = []"
  by (simp add: empty_registry_def init_def load_state_def)

lemma map_entry_absent: "i \<notin> fst ` set tbl \<Longrightarrow> AList.map_entry i f tbl = tbl"
  by (induction tbl) auto

lemma membranes_deregister:
  "membranes (snd (deregister_membrane sv i r)) = AList.delete i (membranes r)"
  by (simp add: deregister_membrane_def with_lock_def Let_def)

lemma fst_deregister:
  "fst (deregister_membrane sv i r) = (i \<in> fst ` set (membranes r))"
  by (simp add: deregister_membrane_def with_lock_def Let_def)

lemma membranes_heartbeat:
  "membranes (snd (heartbeat t i r)) =
     AList.map_entry i (\<lambda>m. m\<lparr>last_heartbeat := t, status := ''active''\<rparr>) (membranes r)"
  by (simp add: heartbeat_def with_lock_def Let_def map_entry_absent)

lemma fst_heartbeat: "fst (heartbeat t i r) = (i \<in> fst ` set (membranes r))"
  by (simp add: heartbeat_def with_lock_def Let_def)

lemma discover_eq:
  "fst (discover_membrane i r) = map_of (membranes r) i \<and>
   membranes (snd (discover_membrane i r)) = membranes r"
  by (simp add: discover_membrane_def with_lock_def)

text \<open>
  Claim C6 says that the core rejects an operation whose id is the empty string, so that no
  record in the table has an empty id. The code has no such check: a registration with the
  id \<open>""\<close>, posted to \<open>/register\<close> of an empty registry, is answered with
  \<open>{"success": true}\<close> and the table then holds a record under the empty key.
\<close>

theorem empty_id_registered_counterexample:
  "fst (handle_register 1 2 (WriteOk, 3) (Inr (asdict (m1_network\<lparr>id_m := ''''\<rparr>))) empty_registry)
     = SendJson (Success True) \<and>
   map fst (membranes (snd (handle_register 1 2 (WriteOk, 3)
     (Inr (asdict (m1_network\<lparr>id_m := ''''\<rparr>))) empty_registry))) = ['''']"
  by (simp add: handle_register_def new_MembraneInfo_def asdict_def m1_network_def
      register_membrane_def with_lock_def Let_def membranes_empty_registry)

text \<open>
  Claim C6, amended. The core checks no id: the empty string is handled like any other id.
  \<open>register_membrane\<close> of a record with the empty id returns \<open>True\<close> and stores the
  record under the empty key; \<open>deregister_membrane\<close> and \<open>heartbeat\<close> with the empty id
  return whether a record with that id is in the table, \<open>discover_membrane\<close> returns that
  record if there is one, and when there is none the table is left as it was.
\<close>

theorem empty_id_like_any_other:
  "(id_m info = '''' \<longrightarrow>
      fst (register_membrane t1 t2 sv info r) = True \<and>
      map_of (membranes (snd (register_membrane t1 t2 sv info r))) '''' =
        Some (info\<lparr>registered_at := t1, last_heartbeat := t2\<rparr>)) \<and>
   fst (deregister_membrane sv '''' r) = ('''' \<in> fst ` set (membranes r)) \<and>
   fst (heartbeat t '''' r) = ('''' \<in> fst ` set (membranes r)) \<and>
   fst (discover_membrane '''' r) = map_of (membranes r) '''' \<and>
   membranes (snd (discover_membrane '''' r)) = membranes r \<and>
   ('''' \<notin> fst ` set (membranes r) \<longrightarrow>
      membranes (snd (deregister_membrane sv '''' r)) = membranes r \<and>
      membranes (snd (heartbeat t '''' r)) = membranes r)"
proof (intro conjI impI)
  assume "id_m info = ''''"
  then show "map_of (membranes (snd (register_membrane t1 t2 sv info r))) '''' =
        Some (info\<lparr>registered_at := t1, last_heartbeat := t2\<rparr>)"
    by (simp add: membranes_register update_conv')
qed (simp_all add: register_membrane_def with_lock_def Let_def fst_deregister fst_heartbeat
      discover_eq membranes_deregister membranes_heartbeat map_entry_absent)

text \<open>At the empty registry: the record with the empty id is stored, and deregistering or
  heartbeating the empty id finds nothing and changes nothing.\<close>

theorem empty_id_like_any_other_witness:
  "id_m (m1_network\<lparr>id_m := ''''\<rparr>) = '''' \<and>
   '''' \<notin> fst ` set (membranes empty_registry) \<and>
   map_of (membranes (snd (register_membrane 1 2 (WriteOk, 3) (m1_network\<lparr>id_m := ''''\<rparr>)
      empty_registry))) '''' =
     Some (m1_network\<lparr>id_m := '''', registered_at := 1, last_heartbeat := 2\<rparr>) \<and>
   fst (deregister_membrane (WriteOk, 3) '''' empty_registry) = False \<and>
   membranes (snd (heartbeat 4 '''' empty_registry)) = membranes empty_registry"
proof -
  have h: "id_m (m1_network\<lparr>id_m := ''''\<rparr>) = '''' \<and> '''' \<notin> fst ` set (membranes empty_registry)"
    by (simp add: membranes_empty_registry)
  from h empty_id_like_any_other [of "m1_network\<lparr>id_m := ''''\<rparr>" 1 2 "(WriteOk, 3)"
      empty_registry 4]
  show ?thesis by simp
qed

subsection \<open>The sweep\<close>

lemma membranes_cleanup_tick:
  "membranes (cleanup_tick now sv r) =
     filter (\<lambda>(k, info). \<not> now - last_heartbeat info > real_of_int (heartbeat_interval r * 5))
       (map (\<lambda>(k, info).
          if now - last_heartbeat info > real_of_int (heartbeat_interval r * 2)
          then (k, info\<lparr>status := ''unhealthy''\<rparr>) else (k, info)) (membranes r))"
  by (simp add: cleanup_tick_def with_lock_def Let_def)

lemma map_of_sweep:
  "distinct (map fst tbl) \<Longrightarrow> map_of tbl k = Some v \<Longrightarrow>
   map_of (filter (\<lambda>(k, v). \<not> Q v) (map (\<lambda>(k, v). if P v then (k, f v) else (k, v)) tbl)) k =
     (if Q (if P v then f v else v) then None else Some (if P v then f v else v))"
proof (induction tbl)
  case Nil
  then show ?case by simp
next
  case (Cons a tbl)
  obtain k' v' where a: "a = (k', v')" by (cases a)
  show ?case
  proof (cases "k' = k")
    case True
    with Cons.prems a have v: "v' = v" and notin: "k \<notin> fst ` set tbl" by auto
    have "map_of (filter (\<lambda>(k, v). \<not> Q v) (map (\<lambda>(k, v). if P v then (k, f v) else (k, v)) tbl)) k = None"
      using notin by (force simp: map_of_eq_None_iff split: if_splits)
    with True a v show ?thesis by simp
  next
    case False
    with Cons a show ?thesis by simp
  qed
qed

text \<open>
  Claim C3 says that a record whose elapsed time equals \<open>5 * heartbeat_interval\<close> is
  deleted by the sweep. With \<open>heartbeat_interval = 30\<close>, a record whose last heartbeat was at
  time 0 and a sweep at time 150, the elapsed time is exactly \<open>5 * 30\<close>, and the record is
  still in the table after the sweep, marked unhealthy: both comparisons of the sweep are
  strict.
\<close>

theorem sweep_boundary_counterexample:
  "150 - last_heartbeat (m1_network\<lparr>registered_at := 0, last_heartbeat := 0\<rparr>) =
     real_of_int (5 * heartbeat_interval (snd (register_membrane 0 0 (WriteOk, 0) m1_network empty_registry))) \<and>
   map_of (membranes (cleanup_tick 150 (WriteOk, 150)
      (snd (register_membrane 0 0 (WriteOk, 0) m1_network empty_registry)))) ''m1'' =
     Some (m1_network\<lparr>registered_at := 0, last_heartbeat := 0, status := ''unhealthy''\<rparr>)"
  by (simp add: membranes_cleanup_tick membranes_register membranes_empty_registry
      register_membrane_def with_lock_def Let_def empty_registry_def init_def load_state_def
      save_state_def propagate_to_peers_def m1_network_def)

text \<open>
  Claim C3, amended. At a sweep at time \<open>now\<close>, for every record of the table, with
  \<open>elapsed = now - last_heartbeat\<close> and \<open>H = heartbeat_interval\<close>: the record is deleted
  if and only if \<open>elapsed > 5 * H\<close>; a record that stays has its status set to
  \<open>"unhealthy"\<close> when \<open>elapsed > 2 * H\<close> and is otherwise unchanged. So after the sweep a
  surviving record is unhealthy if and only if \<open>2 * H < elapsed \<le> 5 * H\<close> or it was
  unhealthy before, and a record with \<open>elapsed = 5 * H\<close> is kept and marked.
\<close>

theorem sweep_thresholds:
  "distinct (map fst (membranes r)) \<and> map_of (membranes r) k = Some info \<longrightarrow>
     (map_of (membranes (cleanup_tick now sv r)) k = None \<longleftrightarrow>
        now - last_heartbeat info > 5 * real_of_int (heartbeat_interval r)) \<and>
     (now - last_heartbeat info \<le> 5 * real_of_int (heartbeat_interval r) \<longrightarrow>
        map_of (membranes (cleanup_tick now sv r)) k =
          Some (if now - last_heartbeat info > 2 * real_of_int (heartbeat_interval r)
                then info\<lparr>status := ''unhealthy''\<rparr> else info)) \<and>
     (\<forall>info'. map_of (membranes (cleanup_tick now sv r)) k = Some info' \<longrightarrow>
        (status info' = ''unhealthy'' \<longleftrightarrow>
           now - last_heartbeat info > 2 * real_of_int (heartbeat_interval r) \<or>
           status info = ''unhealthy''))"
proof (intro impI)
  assume h: "distinct (map fst (membranes r)) \<and> map_of (membranes r) k = Some info"
  define e where "e = now - last_heartbeat info"
  define H where "H = real_of_int (heartbeat_interval r)"
  have five: "real_of_int (heartbeat_interval r * 5) = 5 * H"
    and two: "real_of_int (heartbeat_interval r * 2) = 2 * H"
    by (simp_all add: H_def)
  have "map_of (membranes (cleanup_tick now sv r)) k =
     (if now - last_heartbeat info > real_of_int (heartbeat_interval r * 5) then None
      else Some (if now - last_heartbeat info > real_of_int (heartbeat_interval r * 2)
                 then info\<lparr>status := ''unhealthy''\<rparr> else info))"
    using h
    map_of_sweep [of "membranes r" k info
      "\<lambda>v. now - last_heartbeat v > real_of_int (heartbeat_interval r * 5)"
      "\<lambda>v. now - last_heartbeat v > real_of_int (heartbeat_interval r * 2)"
      "\<lambda>v. v\<lparr>status := ''unhealthy''\<rparr>"]
    by (simp add: membranes_cleanup_tick)
  then have look: "map_of (membranes (cleanup_tick now sv r)) k =
     (if e > 5 * H then None
      else Some (if e > 2 * H then info\<lparr>status := ''unhealthy''\<rparr> else info))"
    unfolding five two e_def [symmetric] .
  have a: "map_of (membranes (cleanup_tick now sv r)) k = None \<longleftrightarrow> e > 5 * H"
    by (simp add: look)
  have b: "e \<le> 5 * H \<longrightarrow>
        map_of (membranes (cleanup_tick now sv r)) k =
          Some (if e > 2 * H then info\<lparr>status := ''unhealthy''\<rparr> else info)"
    by (simp add: look)
  have c: "\<forall>info'. map_of (membranes (cleanup_tick now sv r)) k = Some info' \<longrightarrow>
        (status info' = ''unhealthy'' \<longleftrightarrow> e > 2 * H \<or> status info = ''unhealthy'')"
  proof (intro allI impI)
    fix info'
    assume s: "map_of (membranes (cleanup_tick now sv r)) k = Some info'"
    show "status info' = ''unhealthy'' \<longleftrightarrow> e > 2 * H \<or> status info = ''unhealthy''"
    proof (cases "e > 2 * H")
      case True
      with s look have "info' = info\<lparr>status := ''unhealthy''\<rparr>"
        by (simp split: if_splits)
      with True show ?thesis by simp
    next
      case False
      with s look have "info' = info" by (simp split: if_splits)
      with False show ?thesis by simp
    qed
  qed
  from a b c show "(map_of (membranes (cleanup_tick now sv r)) k = None \<longleftrightarrow>
        now - last_heartbeat info > 5 * real_of_int (heartbeat_interval r)) \<and>
     (now - last_heartbeat info \<le> 5 * real_of_int (heartbeat_interval r) \<longrightarrow>
        map_of (membranes (cleanup_tick now sv r)) k =
          Some (if now - last_heartbeat info > 2 * real_of_int (heartbeat_interval r)
                then info\<lparr>status := ''unhealthy''\<rparr> else info)) \<and>
     (\<forall>info'. map_of (membranes (cleanup_tick now sv r)) k = Some info' \<longrightarrow>
        (status info' = ''unhealthy'' \<longleftrightarrow>
           now - last_heartbeat info > 2 * real_of_int (heartbeat_interval r) \<or>
           status info = ''unhealthy''))"
    unfolding e_def H_def by blast
qed

text \<open>The record \<open>m1\<close>, last heard of at time 0, at a sweep at time 100 with
  \<open>heartbeat_interval = 30\<close>: it stays and is marked unhealthy; at a sweep at time 151 it is
  deleted.\<close>

theorem sweep_thresholds_witness:
  "distinct (map fst (membranes (snd (register_membrane 0 0 (WriteOk, 0) m1_network empty_registry)))) \<and>
   map_of (membranes (snd (register_membrane 0 0 (WriteOk, 0) m1_network empty_registry))) ''m1'' =
     Some (m1_network\<lparr>registered_at := 0, last_heartbeat := 0\<rparr>) \<and>
   map_of (membranes (cleanup_tick 100 (WriteOk, 100)
      (snd (register_membrane 0 0 (WriteOk, 0) m1_network empty_registry)))) ''m1'' =
     Some (m1_network\<lparr>registered_at := 0, last_heartbeat := 0, status := ''unhealthy''\<rparr>) \<and>
   map_of (membranes (cleanup_tick 151 (WriteOk, 151)
      (snd (register_membrane 0 0 (WriteOk, 0) m1_network empty_registry)))) ''m1'' = None"
proof -
  let ?r = "snd (register_membrane 0 0 (WriteOk, 0) m1_network empty_registry)"
  let ?m = "m1_network\<lparr>registered_at := 0, last_heartbeat := 0\<rparr>"
  have hi: "real_of_int (heartbeat_interval ?r) = 30"
    by (simp add: register_membrane_def with_lock_def Let_def empty_registry_def init_def
        load_state_def save_state_def propagate_to_peers_def)
  have h: "distinct (map fst (membranes ?r)) \<and> map_of (membranes ?r) ''m1'' = Some ?m"
    by (simp add: membranes_register membranes_empty_registry m1_network_def)
  have kept: "100 - last_heartbeat ?m \<le> 5 * real_of_int (heartbeat_interval ?r)"
    and marked: "100 - last_heartbeat ?m > 2 * real_of_int (heartbeat_interval ?r)"
    and gone: "151 - last_heartbeat ?m > 5 * real_of_int (heartbeat_interval ?r)"
    unfolding hi by simp_all
  note at100 = sweep_thresholds [of ?r "''m1''" ?m 100 "(WriteOk, 100)", THEN mp, OF h]
  note at151 = sweep_thresholds [of ?r "''m1''" ?m 151 "(WriteOk, 151)", THEN mp, OF h]
  from at100 kept have
    "map_of (membranes (cleanup_tick 100 (WriteOk, 100) ?r)) ''m1'' =
       Some (if 100 - last_heartbeat ?m > 2 * real_of_int (heartbeat_interval ?r)
             then ?m\<lparr>status := ''unhealthy''\<rparr> else ?m)"
    by blast
  with marked have a:
    "map_of (membranes (cleanup_tick 100 (WriteOk, 100) ?r)) ''m1'' =
       Some (?m\<lparr>status := ''unhealthy''\<rparr>)"
    by (simp only: if_True)
  from at151 gone have b: "map_of (membranes (cleanup_tick 151 (WriteOk, 151) ?r)) ''m1'' = None"
    by blast
  from h a b show ?thesis by blast
qed

subsection \<open>Persistence\<close>

lemma state_file_save_ok:
  "state_file (save_state (WriteOk, t) r) = snapshot_of t r"
  by (simp add: save_state_def snapshot_of_def Let_def)

lemma peers_propagate [simp]: "peers (propagate_to_peers act payload r) = peers r"
  by (simp add: propagate_to_peers_eq)

lemma peers_register: "peers (snd (register_membrane t1 t2 sv info r)) = peers r"
  by (simp add: register_membrane_def with_lock_def Let_def)

lemma peers_deregister: "peers (snd (deregister_membrane sv i r)) = peers r"
  by (simp add: deregister_membrane_def with_lock_def Let_def)

lemma state_file_register_ok:
  "state_file (snd (register_membrane t1 t2 (WriteOk, t) info r)) =
     snapshot_of t (snd (register_membrane t1 t2 (WriteOk, t) info r))"
  by (simp add: register_membrane_def with_lock_def Let_def state_file_save_ok snapshot_of_def)

lemma state_file_deregister_ok:
  "i \<in> fst ` set (membranes r) \<Longrightarrow>
   state_file (snd (deregister_membrane (WriteOk, t) i r)) =
     snapshot_of t (snd (deregister_membrane (WriteOk, t) i r))"
  by (simp add: deregister_membrane_def with_lock_def Let_def state_file_save_ok snapshot_of_def)

lemma heartbeat_no_save:
  "state_file (snd (heartbeat t i r)) = state_file r \<and>
   trace (snd (heartbeat t i r)) =
     trace r @ (if i \<in> fst ` set (membranes r) then [Acquire, TableRead, TableWrite, Release]
                else [Acquire, TableRead, Release])"
  by (simp add: heartbeat_def with_lock_def Let_def log_def)

text \<open>
  Claim C4 says that every mutating operation, heartbeat included, overwrites the persisted
  snapshot. A heartbeat at time 40 for the registered membrane \<open>m1\<close> changes the table,
  and the state file stays what the registration wrote: it still shows the last heartbeat
  at time 2.
\<close>

theorem heartbeat_not_persisted_counterexample:
  "membranes (snd (heartbeat 40 ''m1'' (snd (register_membrane 1 2 (WriteOk, 3) m1_network empty_registry))))
     \<noteq> membranes (snd (register_membrane 1 2 (WriteOk, 3) m1_network empty_registry)) \<and>
   state_file (snd (heartbeat 40 ''m1'' (snd (register_membrane 1 2 (WriteOk, 3) m1_network empty_registry))))
     = state_file (snd (register_membrane 1 2 (WriteOk, 3) m1_network empty_registry)) \<and>
   state_file (snd (heartbeat 40 ''m1'' (snd (register_membrane 1 2 (WriteOk, 3) m1_network empty_registry))))
     = Doc \<lparr>doc_membranes = Some [asdict (m1_network\<lparr>registered_at := 1, last_heartbeat := 2\<rparr>)],
            doc_peers = Some [], doc_saved_at = Some 3\<rparr>"
  by (simp add: membranes_heartbeat heartbeat_no_save membranes_register membranes_empty_registry
      state_file_register_ok snapshot_of_def peers_register empty_registry_def init_def load_state_def
      m1_network_def)

text \<open>
  Claim C4, amended. \<open>register_membrane\<close>, and \<open>deregister_membrane\<close> of an id that is in
  the table, save the state as part of the operation: when the write succeeds, the state
  file then holds the whole table and the peer map as the operation leaves them.
  \<open>heartbeat\<close> changes the table and never writes the state file.
\<close>

theorem mutations_persisted:
  "state_file (snd (register_membrane t1 t2 (WriteOk, t) info r)) =
     snapshot_of t (snd (register_membrane t1 t2 (WriteOk, t) info r)) \<and>
   (i \<in> fst ` set (membranes r) \<longrightarrow>
      state_file (snd (deregister_membrane (WriteOk, t) i r)) =
        snapshot_of t (snd (deregister_membrane (WriteOk, t) i r))) \<and>
   state_file (snd (heartbeat t i r)) = state_file r"
  by (simp add: state_file_register_ok state_file_deregister_ok heartbeat_no_save)

text \<open>Deregistering the registered membrane \<open>m1\<close> leaves a snapshot with no record.\<close>

theorem mutations_persisted_witness:
  "''m1'' \<in> fst ` set (membranes (snd (register_membrane 1 2 (WriteOk, 3) m1_network empty_registry))) \<and>
   state_file (snd (deregister_membrane (WriteOk, 9) ''m1''
      (snd (register_membrane 1 2 (WriteOk, 3) m1_network empty_registry)))) =
     Doc \<lparr>doc_membranes = Some [], doc_peers = Some [], doc_saved_at = Some 9\<rparr>"
proof -
  let ?r = "snd (register_membrane 1 2 (WriteOk, 3) m1_network empty_registry)"
  have h: "''m1'' \<in> fst ` set (membranes ?r)"
    by (simp add: membranes_register membranes_empty_registry m1_network_def)
  have p: "peers ?r = []"
    by (simp add: peers_register empty_registry_def init_def load_state_def)
  have m: "membranes (snd (deregister_membrane (WriteOk, 9) ''m1'' ?r)) = []"
    by (simp add: membranes_deregister membranes_register membranes_empty_registry m1_network_def)
  from mutations_persisted [of 0 0 9 m1_network ?r "''m1''"] h
  have "state_file (snd (deregister_membrane (WriteOk, 9) ''m1'' ?r)) =
        snapshot_of 9 (snd (deregister_membrane (WriteOk, 9) ''m1'' ?r))"
    by blast
  with h p m show ?thesis
    by (simp add: snapshot_of_def peers_deregister)
qed

subsection \<open>Loading the state file\<close>

lemma new_MembraneInfo_asdict [simp]: "new_MembraneInfo (asdict m) = Inr m"
  by (simp add: new_MembraneInfo_def asdict_def)

lemma load_entries_prefix:
  "list_all2 (\<lambda>kw m. new_MembraneInfo kw = Inr m) good ms \<Longrightarrow>
   new_MembraneInfo bad = Inl e \<Longrightarrow>
   load_entries (good @ bad # rest) tbl =
     (fold (\<lambda>m. AList.update (id_m m) m) ms tbl, Some e)"
  by (induction good ms arbitrary: tbl rule: list_all2_induct) auto

lemma load_entries_all:
  "list_all2 (\<lambda>kw m. new_MembraneInfo kw = Inr m) good ms \<Longrightarrow>
   load_entries good tbl = (fold (\<lambda>m. AList.update (id_m m) m) ms tbl, None)"
  by (induction good ms arbitrary: tbl rule: list_all2_induct) auto

text \<open>
  Claim C8 says that a state file with an entry that cannot be reconstructed leaves the
  table empty. A document whose first entry is the record \<open>m1\<close> and whose second entry
  has no \<open>endpoint\<close> makes the constructor raise \<open>TypeError\<close> at the second entry; the
  registry starts with \<open>m1\<close> in its table.
\<close>

theorem partial_load_counterexample:
  "new_MembraneInfo m2_broken = Inl TypeError \<and>
   membranes (init ''default'' 30 60
     (Doc \<lparr>doc_membranes = Some [asdict m1_network, m2_broken],
           doc_peers = Some [(''peer'', ''http://peer:8765'')], doc_saved_at = Some 3\<rparr>))
     = [(''m1'', m1_network)]"
  by (simp add: init_def load_state_def m2_broken_def new_MembraneInfo_def asdict_def m1_network_def)

text \<open>
  Claim C8, amended. Loading never stops the registry: whatever the state file holds, the
  constructor returns a registry. With a missing or unreadable file the table is empty.
  With a document in which an entry cannot be reconstructed, the table holds the records
  of the entries before the first such entry (stored in their order, a later one
  replacing an earlier one with the same id), and the peer map stays empty: the table is
  loaded up to the bad entry.
\<close>

theorem load_failure_keeps_prefix:
  "membranes (init rid hb cl Missing) = [] \<and>
   membranes (init rid hb cl Corrupt) = [] \<and>
   (list_all2 (\<lambda>kw m. new_MembraneInfo kw = Inr m) good ms \<and> new_MembraneInfo bad = Inl e \<longrightarrow>
      membranes (init rid hb cl (Doc \<lparr>doc_membranes = Some (good @ bad # rest),
          doc_peers = ps, doc_saved_at = t\<rparr>)) =
        fold (\<lambda>m. AList.update (id_m m) m) ms [] \<and>
      peers (init rid hb cl (Doc \<lparr>doc_membranes = Some (good @ bad # rest),
          doc_peers = ps, doc_saved_at = t\<rparr>)) = [])"
  by (auto simp: init_def load_state_def load_entries_prefix)

text \<open>The document of the counterexample, with a third entry after the bad one.\<close>

theorem load_failure_keeps_prefix_witness:
  "list_all2 (\<lambda>kw m. new_MembraneInfo kw = Inr m) [asdict m1_network] [m1_network] \<and>
   new_MembraneInfo m2_broken = Inl TypeError \<and>
   membranes (init ''default'' 30 60
     (Doc \<lparr>doc_membranes = Some ([asdict m1_network] @ m2_broken # [asdict m1_volume]),
           doc_peers = Some [(''peer'', ''http://peer:8765'')], doc_saved_at = Some 3\<rparr>))
     = [(id_m m1_network, m1_network)] \<and>
   peers (init ''default'' 30 60
     (Doc \<lparr>doc_membranes = Some ([asdict m1_network] @ m2_broken # [asdict m1_volume]),
           doc_peers = Some [(''peer'', ''http://peer:8765'')], doc_saved_at = Some 3\<rparr>)) = []"
proof -
  have h: "list_all2 (\<lambda>kw m. new_MembraneInfo kw = Inr m) [asdict m1_network] [m1_network] \<and>
      new_MembraneInfo m2_broken = Inl TypeError"
    by (simp add: m2_broken_def new_MembraneInfo_def asdict_def)
  from h load_failure_keeps_prefix [of "''default''" 30 60 "[asdict m1_network]" "[m1_network]"
      m2_broken TypeError "[asdict m1_volume]" "Some [(''peer'', ''http://peer:8765'')]" "Some 3"]
  have "membranes (init ''default'' 30 60
     (Doc \<lparr>doc_membranes = Some ([asdict m1_network] @ m2_broken # [asdict m1_volume]),
           doc_peers = Some [(''peer'', ''http://peer:8765'')], doc_saved_at = Some 3\<rparr>))
     = fold (\<lambda>m. AList.update (id_m m) m) [m1_network] [] \<and>
   peers (init ''default'' 30 60
     (Doc \<lparr>doc_membranes = Some ([asdict m1_network] @ m2_broken # [asdict m1_volume]),
           doc_peers = Some [(''peer'', ''http://peer:8765'')], doc_saved_at = Some 3\<rparr>)) = []"
    by blast
  with h show ?thesis by simp
qed

section \<open>Properties of the client\<close>

lemma membrane_id_clog [simp]: "membrane_id (clog e c) = membrane_id c"
  by (simp add: clog_def)

lemma c_trace_clog [simp]: "c_trace (clog e c) = c_trace c @ [e]"
  by (simp add: clog_def)

lemma running_clog [simp]: "heartbeat_running (clog e c) = heartbeat_running c"
  by (simp add: clog_def)

subsection \<open>Default endpoints\<close>

lemma register_posts_endpoint:
  "c_trace (snd (client_register h p None mode md t1 t2 pr c)) ! length (c_trace c) =
     HttpPost (registry_url c @ ''/register'')
       \<lparr>k_id = Some (membrane_id c), k_parent = Some p,
        k_endpoint = Some (auto_detect_endpoint h c mode),
        k_communication_mode = Some mode, k_health_check_url = Some None,
        k_metadata = Some (case md of None \<Rightarrow> [] | Some x \<Rightarrow> x),
        k_registered_at = Some t1, k_last_heartbeat = Some t2, k_status = None,
        k_unexpected = []\<rparr>"
  by (cases pr) (simp_all add: client_register_def Let_def start_heartbeat_def clog_def nth_append)

text \<open>
  Claim C9 says that two derivations of the default endpoint with the same id and mode
  agree, also in different runs of the program. In network mode the port comes from the
  built-in \<open>hash\<close> of the id, and two processes whose string hashes differ derive two
  different endpoints for the same membrane \<open>m1\<close>.
\<close>

theorem default_endpoint_hash_counterexample:
  "auto_detect_endpoint (keyed_hash 0) client_m1 ''network'' = ''http://localhost:9158'' \<and>
   auto_detect_endpoint (keyed_hash 1) client_m1 ''network'' = ''http://localhost:9159'' \<and>
   auto_detect_endpoint (keyed_hash 0) client_m1 ''network'' \<noteq>
     auto_detect_endpoint (keyed_hash 1) client_m1 ''network''"
  by (simp add: auto_detect_endpoint_def keyed_hash_def client_m1_def new_client_def
      str_int_def str_nat.simps)

text \<open>
  Claim C9, amended. The default endpoint is a function of the membrane id, the mode and,
  in network mode only, of the value the hash function of the running process gives the
  id. Two derivations with the same id and mode agree when the mode is not
  \<open>"network"\<close>, whatever the hash functions, and in network mode when the two hash
  values of the id agree modulo 1000 (as they do within one process). In network mode the
  endpoint is \<open>http://localhost:\<close> followed by the port \<open>9000 + hash(id) % 1000\<close>, which
  lies between 9000 and 9999.
\<close>

theorem default_endpoint_function:
  "(membrane_id c = membrane_id c' \<and>
      (mode \<noteq> ''network'' \<or> h (membrane_id c) mod 1000 = h' (membrane_id c') mod 1000) \<longrightarrow>
      auto_detect_endpoint h c mode = auto_detect_endpoint h' c' mode) \<and>
   auto_detect_endpoint h c ''network'' =
     ''http://localhost:'' @ str_int (9000 + h (membrane_id c) mod 1000) \<and>
   9000 \<le> 9000 + h (membrane_id c) mod 1000 \<and> 9000 + h (membrane_id c) mod 1000 \<le> 9999"
  by (auto simp: auto_detect_endpoint_def Let_def)

text \<open>The socket path of \<open>m1\<close> in ipc mode is the same under two different hash functions,
  and for a client with another registry address.\<close>

theorem default_endpoint_function_witness:
  "membrane_id client_m1 = membrane_id (client_m1\<lparr>registry_url := ''http://registry:1''\<rparr>) \<and>
   ''ipc'' \<noteq> ''network'' \<and>
   auto_detect_endpoint (keyed_hash 0) client_m1 ''ipc'' =
     auto_detect_endpoint (keyed_hash 1) (client_m1\<lparr>registry_url := ''http://registry:1''\<rparr>) ''ipc''"
proof -
  have h: "membrane_id client_m1 = membrane_id (client_m1\<lparr>registry_url := ''http://registry:1''\<rparr>) \<and>
      ''ipc'' \<noteq> ''network''"
    by simp
  from h default_endpoint_function [of client_m1
      "client_m1\<lparr>registry_url := ''http://registry:1''\<rparr>" "''ipc''" "keyed_hash 0" "keyed_hash 1"]
  show ?thesis by blast
qed

subsection \<open>Stopping the heartbeat loop\<close>

lemma running_stop_heartbeat [simp]: "heartbeat_running (stop_heartbeat c) = False"
  by (simp add: stop_heartbeat_def Let_def split: option.splits)

lemma running_list_loop:
  "heartbeat_running (snd (list_loop entries acc c)) = heartbeat_running c"
  by (induction entries acc c rule: list_loop.induct) (auto split: sum.splits)

lemma running_heartbeat [simp]:
  "heartbeat_running (snd (client_heartbeat pr c)) = heartbeat_running c"
  by (cases pr) (simp_all add: client_heartbeat_def Let_def)

lemma running_discover [simp]:
  "heartbeat_running (snd (client_discover target use_cache t1 t2 gr c)) = heartbeat_running c"
  by (cases gr) (auto simp: client_discover_def Let_def split: option.splits sum.splits)

lemma running_list [simp]:
  "heartbeat_running (snd (client_list_membranes p m lr c)) = heartbeat_running c"
  by (cases lr) (simp_all add: client_list_membranes_def Let_def running_list_loop)

lemma running_send [simp]:
  "heartbeat_running (snd (client_send_message target t1 t2 gr delivered t3 c)) = heartbeat_running c"
proof -
  obtain res c1 where d: "client_discover target True t1 t2 gr c = (res, c1)"
    by (cases "client_discover target True t1 t2 gr c")
  then have "heartbeat_running c1 = heartbeat_running c"
    using running_discover [of target True t1 t2 gr c] by simp
  with d show ?thesis
    by (cases res) (simp_all add: client_send_message_def)
qed

lemma running_deregister [simp]:
  "heartbeat_running (snd (client_deregister pr c)) = False"
  by (cases pr) (simp_all add: client_deregister_def Let_def)

lemma running_register:
  "heartbeat_running (snd (client_register h p e m md t1 t2 pr c)) =
     (heartbeat_running c \<or> (auto_heartbeat c \<and> pr = PostReply (Some True)))"
proof (cases pr)
  case PostRaises
  then show ?thesis by (simp add: client_register_def Let_def)
next
  case (PostReply s)
  then show ?thesis
    by (cases s) (auto simp: client_register_def Let_def get_success_def start_heartbeat_def clog_def)
qed

lemma step_stays_stopped:
  "\<not> heartbeat_running c \<Longrightarrow> \<not> successful_register op \<Longrightarrow>
   \<not> heartbeat_running (client_step h op c)"
proof (cases op)
  case (Register p e m md t1 t2 pr)
  assume "\<not> heartbeat_running c" "\<not> successful_register op"
  with Register show ?thesis
    by (cases pr) (auto simp: running_register elim: successful_register.elims)
qed simp_all

lemma steps_stay_stopped:
  "\<not> heartbeat_running c \<Longrightarrow> \<not> list_ex successful_register ops \<Longrightarrow>
   \<not> heartbeat_running (fold (client_step h) ops c)"
  by (induction ops arbitrary: c) (auto dest: step_stays_stopped)

lemma worker_stopped: "\<not> heartbeat_running c \<Longrightarrow> heartbeat_worker prs c = c"
  by (cases prs) simp_all

lemma deregister_trace:
  "c_trace (snd (client_deregister pr c)) =
     c_trace c @ (case heartbeat_thread c of Some th \<Rightarrow> [ThreadJoin] | None \<Rightarrow> []) @
     [HttpPost (registry_url c @ ''/deregister'') (id_only (membrane_id c))]"
  by (cases pr; cases "heartbeat_thread c")
     (simp_all add: client_deregister_def stop_heartbeat_def Let_def clog_def)

text \<open>
  Claim C10. For every client, whatever the outcome of the request: \<open>deregister\<close> stops
  the heartbeat loop before it posts the deregistration (it clears \<open>heartbeat_running\<close>
  and joins the thread, then posts), so after \<open>deregister\<close> the flag is cleared and the
  loop of the worker makes no further pass, also when the request raises or is answered
  with false. After any further calls of the client's methods the flag is set again only
  if one of them was a \<open>register\<close> that the registry answered with success.
\<close>

theorem deregister_stops_heartbeat:
  "heartbeat_running (snd (client_deregister pr c)) = False \<and>
   c_trace (snd (client_deregister pr c)) =
     c_trace c @ (case heartbeat_thread c of Some th \<Rightarrow> [ThreadJoin] | None \<Rightarrow> []) @
     [HttpPost (registry_url c @ ''/deregister'') (id_only (membrane_id c))] \<and>
   heartbeat_worker prs (snd (client_deregister pr c)) = snd (client_deregister pr c) \<and>
   (heartbeat_running (fold (client_step h) ops (snd (client_deregister pr c))) \<longrightarrow>
      list_ex successful_register ops)"
proof (intro conjI impI)
  show "heartbeat_worker prs (snd (client_deregister pr c)) = snd (client_deregister pr c)"
    by (rule worker_stopped) simp
  assume "heartbeat_running (fold (client_step h) ops (snd (client_deregister pr c)))"
  then show "list_ex successful_register ops"
    using steps_stay_stopped [of "snd (client_deregister pr c)" ops h] by auto
qed (simp_all add: deregister_trace)

text \<open>
  The client \<open>m1\<close> registers (the loop starts), fails to deregister because the request
  raises, and registers again with success: the loop runs again, and a successful
  \<open>register\<close> is among the later calls.
\<close>

theorem deregister_stops_heartbeat_witness:
  "heartbeat_running (snd (client_register (keyed_hash 0) None None ''network'' None 1 2
      (PostReply (Some True)) client_m1)) \<and>
   \<not> heartbeat_running (snd (client_deregister PostRaises
      (snd (client_register (keyed_hash 0) None None ''network'' None 1 2
        (PostReply (Some True)) client_m1)))) \<and>
   heartbeat_running (fold (client_step (keyed_hash 0))
      [Heartbeat PostRaises, Register None None ''network'' None 3 4 (PostReply (Some True))]
      (snd (client_deregister PostRaises
        (snd (client_register (keyed_hash 0) None None ''network'' None 1 2
          (PostReply (Some True)) client_m1))))) \<and>
   list_ex successful_register
      ([Heartbeat PostRaises, Register None None ''network'' None 3 4 (PostReply (Some True))]
        :: unit client_op list)"
proof -
  let ?c = "snd (client_register (keyed_hash 0) None None ''network'' None 1 2
      (PostReply (Some True)) client_m1)"
  have auto_on: "auto_heartbeat (snd (client_deregister PostRaises ?c))"
    by (simp add: client_deregister_def client_register_def Let_def stop_heartbeat_def
        start_heartbeat_def clog_def get_success_def client_m1_def new_client_def)
  have a: "heartbeat_running ?c"
    by (simp add: running_register client_m1_def new_client_def)
  have b: "heartbeat_running (fold (client_step (keyed_hash 0))
      [Heartbeat PostRaises, Register None None ''network'' None 3 4 (PostReply (Some True))]
      (snd (client_deregister PostRaises ?c)))"
    using auto_on by (simp add: running_register client_heartbeat_def Let_def clog_def)
  note stopped = deregister_stops_heartbeat [of PostRaises ?c "[]" "keyed_hash 0"
      "[Heartbeat PostRaises, Register None None ''network'' None 3 4 (PostReply (Some True))]"]
  from stopped have c: "heartbeat_running (snd (client_deregister PostRaises ?c)) = False"
    by (rule conjunct1)
  from stopped have imp:
    "heartbeat_running (fold (client_step (keyed_hash 0))
      [Heartbeat PostRaises, Register None None ''network'' None 3 4 (PostReply (Some True))]
      (snd (client_deregister PostRaises ?c))) \<longrightarrow>
     list_ex successful_register
      ([Heartbeat PostRaises, Register None None ''network'' None 3 4 (PostReply (Some True))]
        :: unit client_op list)"
    by (elim conjE)
  from imp b have d: "list_ex successful_register
      ([Heartbeat PostRaises, Register None None ''network'' None 3 4 (PostReply (Some True))]
        :: unit client_op list)"
    by (rule mp)
  from c have c': "\<not> heartbeat_running (snd (client_deregister PostRaises ?c))"
    by (simp only: simp_thms)
  from a c' b d show ?thesis by (intro conjI)
qed

subsection \<open>The delay after a failed heartbeat\<close>

lemma heartbeat_never_raises:
  "fst (client_heartbeat PostRaises c) = False \<and>
   fst (client_heartbeat (PostReply s) c) = get_success s"
  by (simp add: client_heartbeat_def Let_def)

lemma heartbeat_iteration_trace:
  "0 \<le> heartbeat_interval_c c \<Longrightarrow>
   c_trace (heartbeat_iteration pr c) =
     c_trace c @ [HttpPost (registry_url c @ ''/heartbeat'') (id_only (membrane_id c)),
                  Sleep (heartbeat_interval_c c)]"
  by (cases pr) (simp_all add: heartbeat_iteration_def client_heartbeat_def Let_def clog_def)

text \<open>
  Claim C7 says that the loop waits 5 seconds after a failed heartbeat. With the default
  interval of 25 seconds and a registry that cannot be reached (the request raises),
  \<open>heartbeat()\<close> catches the exception itself and returns \<open>False\<close>, the loop drops that
  result, and the pass ends with a sleep of the full 25 seconds: the branch that sleeps
  5 seconds is not taken.
\<close>

theorem failed_heartbeat_sleeps_full_interval:
  "fst (client_heartbeat PostRaises client_m1) = False \<and>
   c_trace (heartbeat_iteration PostRaises client_m1) =
     [HttpPost ''http://localhost:8765/heartbeat'' (id_only ''m1''), Sleep 25] \<and>
   c_trace (heartbeat_iteration (PostReply (Some False)) client_m1) =
     [HttpPost ''http://localhost:8765/heartbeat'' (id_only ''m1''), Sleep 25]"
  by (simp add: heartbeat_iteration_def client_heartbeat_def Let_def clog_def client_m1_def
      new_client_def get_success_def)

section \<open>Properties of the HTTP interface and of the lock\<close>

subsection \<open>Listing with filters\<close>

lemma list_membranes_filter:
  "fst (list_membranes p m r) =
     filter (\<lambda>x. (case p of None \<Rightarrow> True | Some q \<Rightarrow> parent x = Some q) \<and>
                 (case m of None \<Rightarrow> True | Some c \<Rightarrow> communication_mode x = c))
       (map snd (membranes r))"
  by (cases p; cases m) (simp_all add: list_membranes_def with_lock_def Let_def conj_commute)

lemma parse_qs_empty: "parse_qs [] = []"
  by (simp add: parse_qs_def parse_qsl_def)

lemma do_GET_list_all:
  "fst (do_GET t1 t2 ''/list'' r) = SendJson (Records (map (asdict \<circ> snd) (membranes r)))"
  by (simp add: do_GET_def handle_list_def parse_qs_empty query_first_def
      list_membranes_filter case_prod_beta)

text \<open>
  Claim C1 says that \<open>GET /list\<close> with a \<open>parent\<close> or \<open>communication_mode\<close> parameter
  answers with the matching records. \<open>do_GET\<close> compares the whole request target, query
  string included, with \<open>"/list"\<close>: at a registry that holds \<open>m1\<close> with parent
  \<open>root\<close>, the request \<open>/list?parent=root\<close> is answered with 404, although
  \<open>_handle_list\<close>, had it been called with that target, would answer with the record.
\<close>

theorem list_with_query_not_found:
  "fst (do_GET 5 6 ''/list?parent=root''
      (snd (register_membrane 1 2 (WriteOk, 3) m1_network empty_registry))) =
     SendError 404 (Text ''Not Found'') \<and>
   fst (handle_list ''/list?parent=root''
      (snd (register_membrane 1 2 (WriteOk, 3) m1_network empty_registry))) =
     SendJson (Records [asdict (m1_network\<lparr>registered_at := 1, last_heartbeat := 2\<rparr>)])"
proof -
  have q: "parse_qs ''parent=root'' = [(''parent'', [''root''])]"
    by (simp add: parse_qs_def parse_qsl_def split_once_def unquote_plus_def)
  have s: "split_once CHR ''?'' ''/list?parent=root'' = [''/list'', ''parent=root'']"
    by (simp add: split_once_def)
  show ?thesis
    by (simp add: do_GET_def handle_list_def s q query_first_def list_membranes_filter
        membranes_register membranes_empty_registry m1_network_def case_prod_beta)
qed

subsection \<open>The lock discipline\<close>

lemma guarded_sends:
  "guarded d (map (\<lambda>(peer_id, ep). SendToPeer ep (f ep)) ps @ es) = guarded d es"
  by (induction ps) auto

lemma register_trace:
  "trace (snd (register_membrane t1 t2 sv info r)) =
     trace r @ [Acquire, TableWrite, TableRead, SaveState] @
     map (\<lambda>(peer_id, ep). SendToPeer ep \<lparr>action = Some ''register'',
        data = Some (asdict (info\<lparr>registered_at := t1, last_heartbeat := t2\<rparr>))\<rparr>) (peers r) @
     [Release]"
  by (cases "fst sv")
     (simp_all add: register_membrane_def with_lock_def Let_def save_state_def
        propagate_to_peers_eq log_def)

lemma deregister_trace_present:
  "i \<in> fst ` set (membranes r) \<Longrightarrow>
   trace (snd (deregister_membrane sv i r)) =
     trace r @ [Acquire, TableRead, TableWrite, TableRead, SaveState] @
     map (\<lambda>(peer_id, ep). SendToPeer ep \<lparr>action = Some ''deregister'',
        data = Some (id_only i)\<rparr>) (peers r) @
     [Release]"
  by (cases "fst sv")
     (simp_all add: deregister_membrane_def with_lock_def Let_def save_state_def
        propagate_to_peers_eq log_def)

lemma deregister_trace_absent:
  "i \<notin> fst ` set (membranes r) \<Longrightarrow>
   trace (snd (deregister_membrane sv i r)) = trace r @ [Acquire, TableRead, Release]"
  by (simp add: deregister_membrane_def with_lock_def Let_def log_def)

lemma discover_trace:
  "trace (snd (discover_membrane i r)) = trace r @ [Acquire, TableRead, Release]"
  by (simp add: discover_membrane_def with_lock_def log_def)

lemma list_trace:
  "trace (snd (list_membranes p m r)) = trace r @ [Acquire, TableRead, Release]"
  by (simp add: list_membranes_def with_lock_def Let_def log_def)

lemma store_operations_guarded:
  "guarded 0 (drop (length (trace r)) (trace (snd (register_membrane t1 t2 sv info r)))) \<and>
   guarded 0 (drop (length (trace r)) (trace (snd (deregister_membrane sv i r)))) \<and>
   guarded 0 (drop (length (trace r)) (trace (snd (heartbeat t i r)))) \<and>
   guarded 0 (drop (length (trace r)) (trace (snd (discover_membrane i r)))) \<and>
   guarded 0 (drop (length (trace r)) (trace (snd (list_membranes p m r))))"
proof -
  have "guarded 0 (drop (length (trace r)) (trace (snd (deregister_membrane sv i r))))"
    by (cases "i \<in> fst ` set (membranes r)")
       (simp_all add: deregister_trace_present deregister_trace_absent guarded_sends)
  then show ?thesis
    by (simp add: register_trace guarded_sends heartbeat_no_save discover_trace list_trace)
qed

text \<open>
  Claim C2 says that every compound operation on the table, the upsert and delete applied
  for \<open>/peer-sync\<close> included, holds the lock of the store for its whole duration.
  \<open>_handle_peer_sync\<close> writes \<open>registry.membranes\<close> without taking the lock: the
  effects of a \<open>register\<close> and of a \<open>deregister\<close> message are one write of the table with
  no \<open>Acquire\<close> before it, which breaks the discipline that the operations of the store keep.
\<close>

theorem peer_sync_writes_without_lock:
  "trace (snd (handle_peer_sync
      (Inr \<lparr>action = Some ''register'', data = Some (asdict m1_network)\<rparr>) empty_registry)) =
     [TableWrite] \<and>
   membranes (snd (handle_peer_sync
      (Inr \<lparr>action = Some ''register'', data = Some (asdict m1_network)\<rparr>) empty_registry)) =
     [(''m1'', m1_network)] \<and>
   trace (snd (handle_peer_sync
      (Inr \<lparr>action = Some ''deregister'', data = Some (id_only ''m1'')\<rparr>) empty_registry)) =
     [TableWrite] \<and>
   \<not> guarded 0 ([TableWrite] :: unit event list)"
  by (simp add: handle_peer_sync_def trace_empty_registry membranes_empty_registry
      m1_network_def id_only_def log_def)

section \<open>Further properties of the registry\<close>

text \<open>
  \<open>list_membranes\<close> returns, in the order of the table, exactly the records that match
  every filter that is given; a filter that is \<open>None\<close> excludes nothing.
\<close>

theorem list_returns_matching_records:
  "fst (list_membranes p m r) =
     filter (\<lambda>x. (case p of None \<Rightarrow> True | Some q \<Rightarrow> parent x = Some q) \<and>
                 (case m of None \<Rightarrow> True | Some c \<Rightarrow> communication_mode x = c))
       (map snd (membranes r)) \<and>
   membranes (snd (list_membranes p m r)) = membranes r"
  by (simp add: list_membranes_filter) (simp add: list_membranes_def with_lock_def Let_def)

text \<open>\<open>GET /list\<close> without a query string is answered with every record of the table.\<close>

theorem list_without_query_returns_all:
  "fst (do_GET t1 t2 ''/list'' r) = SendJson (Records (map (asdict \<circ> snd) (membranes r)))"
  by (rule do_GET_list_all)

lemma cleanup_trace:
  "trace (cleanup_tick now sv r) =
     trace r @ [Acquire, TableWrite, TableWrite] @
     (if filter (\<lambda>(k, info). now - last_heartbeat info > real_of_int (heartbeat_interval r * 2))
           (membranes r) \<noteq> []
      then [TableRead, SaveState] else []) @ [Release]"
  by (cases "fst sv") (simp_all add: cleanup_tick_def with_lock_def Let_def save_state_def log_def)

text \<open>
  The operations of the store and the sweep keep the lock discipline: every read and write
  of the table they make lies between taking and releasing the lock.
\<close>

theorem store_and_sweep_guarded:
  "guarded 0 (drop (length (trace r)) (trace (snd (register_membrane t1 t2 sv info r)))) \<and>
   guarded 0 (drop (length (trace r)) (trace (snd (deregister_membrane sv i r)))) \<and>
   guarded 0 (drop (length (trace r)) (trace (snd (heartbeat t i r)))) \<and>
   guarded 0 (drop (length (trace r)) (trace (snd (discover_membrane i r)))) \<and>
   guarded 0 (drop (length (trace r)) (trace (snd (list_membranes p m r)))) \<and>
   guarded 0 (drop (length (trace r)) (trace (cleanup_tick now sv r)))"
  using store_operations_guarded [of r t1 t2 sv info i t p m]
  by (simp add: cleanup_trace)

text \<open>
  A registered membrane is discovered with the fields of its registration and the
  timestamps of the server; a deregistered id is not discovered.
\<close>

theorem register_then_discover:
  "fst (discover_membrane (id_m info) (snd (register_membrane t1 t2 sv info r))) =
     Some (info\<lparr>registered_at := t1, last_heartbeat := t2\<rparr>)"
  by (simp add: discover_eq membranes_register update_conv')

theorem deregister_then_discover:
  "fst (discover_membrane i (snd (deregister_membrane sv i r))) = None"
  by (simp add: discover_eq membranes_deregister delete_conv')

lemma map_of_map_entry_same:
  "map_of (AList.map_entry k f tbl) k = map_option f (map_of tbl k)"
  by (induction tbl) auto

text \<open>
  A heartbeat for a record that is in the table returns \<open>True\<close> and leaves the record
  active, with the time of the heartbeat as its last heartbeat, whatever its status was.
\<close>

theorem heartbeat_resets:
  "map_of (membranes r) i = Some m \<longrightarrow>
     fst (heartbeat t i r) = True \<and>
     map_of (membranes (snd (heartbeat t i r))) i =
       Some (m\<lparr>last_heartbeat := t, status := ''active''\<rparr>)"
proof
  assume h: "map_of (membranes r) i = Some m"
  then have "i \<in> fst ` set (membranes r)"
    by (metis domI dom_map_of_conv_image_fst)
  with h show "fst (heartbeat t i r) = True \<and>
     map_of (membranes (snd (heartbeat t i r))) i =
       Some (m\<lparr>last_heartbeat := t, status := ''active''\<rparr>)"
    by (simp add: fst_heartbeat membranes_heartbeat map_of_map_entry_same)
qed

text \<open>The record \<open>m1\<close>, marked unhealthy by a sweep at time 100, is active again after a
  heartbeat at time 120.\<close>

theorem heartbeat_resets_witness:
  "map_of (membranes (cleanup_tick 100 (WriteOk, 100)
      (snd (register_membrane 0 0 (WriteOk, 0) m1_network empty_registry)))) ''m1'' =
     Some (m1_network\<lparr>registered_at := 0, last_heartbeat := 0, status := ''unhealthy''\<rparr>) \<and>
   map_of (membranes (snd (heartbeat 120 ''m1'' (cleanup_tick 100 (WriteOk, 100)
      (snd (register_membrane 0 0 (WriteOk, 0) m1_network empty_registry)))))) ''m1'' =
     Some (m1_network\<lparr>registered_at := 0, last_heartbeat := 120, status := ''active''\<rparr>)"
proof -
  let ?r = "cleanup_tick 100 (WriteOk, 100)
      (snd (register_membrane 0 0 (WriteOk, 0) m1_network empty_registry))"
  have h: "map_of (membranes ?r) ''m1'' =
     Some (m1_network\<lparr>registered_at := 0, last_heartbeat := 0, status := ''unhealthy''\<rparr>)"
    by (simp add: membranes_cleanup_tick membranes_register membranes_empty_registry
      register_membrane_def with_lock_def Let_def empty_registry_def init_def load_state_def
      save_state_def propagate_to_peers_def m1_network_def)
  from h heartbeat_resets [of ?r "''m1''"
      "m1_network\<lparr>registered_at := 0, last_heartbeat := 0, status := ''unhealthy''\<rparr>" 120]
  show ?thesis by simp
qed

lemma update_absent: "k \<notin> fst ` set tbl \<Longrightarrow> AList.update k v tbl = tbl @ [(k, v)]"
  by (induction tbl) auto

lemma load_saved_entries:
  "table_ok tbl \<Longrightarrow> fst ` set tbl \<inter> fst ` set acc = {} \<Longrightarrow>
   load_entries (map (asdict \<circ> snd) tbl) acc = (acc @ tbl, None)"
proof (induction tbl arbitrary: acc)
  case Nil
  then show ?case by simp
next
  case (Cons a tbl)
  obtain k m where a: "a = (k, m)" by (cases a)
  from Cons.prems a have km: "id_m m = k" and ok: "table_ok tbl"
    and fresh: "k \<notin> fst ` set tbl" "k \<notin> fst ` set acc"
    by (auto simp: table_ok_def)
  from Cons.prems a have "fst ` set tbl \<inter> fst ` set (acc @ [(k, m)]) = {}"
    using fresh by auto
  with Cons.IH [OF ok, of "acc @ [(k, m)]"] a km fresh show ?case
    by (simp add: update_absent)
qed

text \<open>
  Saving and loading: a registry started from the file that a successful save of a
  registry wrote has the table and the peer map of that registry.
\<close>

theorem save_then_load:
  "table_ok (membranes r) \<longrightarrow>
     membranes (init rid hb cl (state_file (save_state (WriteOk, t) r))) = membranes r \<and>
     peers (init rid hb cl (state_file (save_state (WriteOk, t) r))) = peers r"
proof
  assume "table_ok (membranes r)"
  then have "load_entries (map (asdict \<circ> snd) (membranes r)) [] = ([] @ membranes r, None)"
    by (intro load_saved_entries) simp_all
  then show "membranes (init rid hb cl (state_file (save_state (WriteOk, t) r))) = membranes r \<and>
     peers (init rid hb cl (state_file (save_state (WriteOk, t) r))) = peers r"
    by (simp add: init_def load_state_def state_file_save_ok snapshot_of_def)
qed

text \<open>The registry that holds \<open>m1\<close>, saved and loaded.\<close>

theorem save_then_load_witness:
  "table_ok (membranes (snd (register_membrane 1 2 (OpenFails, 3) m1_network empty_registry))) \<and>
   membranes (init ''other'' 10 20 (state_file (save_state (WriteOk, 4)
      (snd (register_membrane 1 2 (OpenFails, 3) m1_network empty_registry))))) =
     [(''m1'', m1_network\<lparr>registered_at := 1, last_heartbeat := 2\<rparr>)]"
proof -
  let ?r = "snd (register_membrane 1 2 (OpenFails, 3) m1_network empty_registry)"
  have m: "membranes ?r = [(''m1'', m1_network\<lparr>registered_at := 1, last_heartbeat := 2\<rparr>)]"
    by (simp add: membranes_register membranes_empty_registry m1_network_def)
  have h: "table_ok (membranes ?r)"
    unfolding m by (simp add: table_ok_def m1_network_def)
  from h m save_then_load [of ?r "''other''" 10 20 4]
  show ?thesis by simp
qed

end
